theory Spec2Isabelle
  imports Complex_Main
begin

section \<open>JavaScript values\<close>

text \<open>
  The client is TypeScript whose request parameters and decoded responses have type
  \<^verbatim>\<open>any\<close>, so the run-time values are modelled: \<open>undefined\<close>, and the values of the
  JSON data model. \<open>JNum n\<close> is the JavaScript number with the integer value \<open>n\<close>
  (exact for \<open>\<bar>n\<bar> \<le> 2 ^ 53\<close>); numbers with a fraction, NaN and infinities are outside the
  model. A string is a list of 8-bit characters. An object is the list of its own
  properties in insertion order; the property names of one object are distinct.
\<close>

datatype jsval =
    JUndefined
  | JNull
  | JBool bool
  | JNum int
  | JStr string
  | JArr "jsval list"
  | JObj "(string \<times> jsval) list"

text \<open>
  Exceptions. \<open>Error m\<close> is \<^verbatim>\<open>new Error(m)\<close>, the only error the repository's code
  constructs. \<open>TypeError\<close> and \<open>SyntaxError\<close> are raised by the platform (a property read
  on \<open>undefined\<close> or \<open>null\<close>, a call of a non-function, a rejected \<^verbatim>\<open>fetch\<close>,
  \<^verbatim>\<open>JSON.parse\<close> on a malformed text); their message texts are engine specific and not
  modelled.
\<close>

datatype js_error = Error string | TypeError | SyntaxError

text \<open>ToBoolean: the values for which \<^verbatim>\<open>!v\<close> is false.\<close>

fun truthy :: "jsval \<Rightarrow> bool" where
  "truthy JUndefined = False"
| "truthy JNull = False"
| "truthy (JBool b) = b"
| "truthy (JNum n) = (n \<noteq> 0)"
| "truthy (JStr s) = (s \<noteq> [])"
| "truthy (JArr xs) = True"
| "truthy (JObj kvs) = True"

text \<open>\<^verbatim>\<open>a || b\<close>\<close>

definition js_or :: "jsval \<Rightarrow> jsval \<Rightarrow> jsval" where
  "js_or a b = (if truthy a then a else b)"

text \<open>
  \<^verbatim>\<open>v.k\<close>: a TypeError on \<open>undefined\<close> and \<open>null\<close>, the own property of an object
  (\<open>undefined\<close> when it has none), and \<open>undefined\<close> on the other values. This is exact
  for the property names the client reads (\<^verbatim>\<open>error\<close>, \<^verbatim>\<open>message\<close>, \<^verbatim>\<open>result\<close>,
  \<^verbatim>\<open>tools\<close>, \<^verbatim>\<open>content\<close>, \<^verbatim>\<open>name\<close>, \<^verbatim>\<open>description\<close>, \<^verbatim>\<open>serverUrl\<close>,
  \<^verbatim>\<open>toolName\<close>, \<^verbatim>\<open>arguments\<close>), none of which is a property of a built-in prototype.
\<close>

fun getprop :: "jsval \<Rightarrow> string \<Rightarrow> js_error + jsval" where
  "getprop JUndefined k = Inl TypeError"
| "getprop JNull k = Inl TypeError"
| "getprop (JObj kvs) k = (case map_of kvs k of None \<Rightarrow> Inr JUndefined | Some v \<Rightarrow> Inr v)"
| "getprop v k = Inr JUndefined"

text \<open>\<^verbatim>\<open>v?.k\<close>\<close>

fun getprop_opt :: "jsval \<Rightarrow> string \<Rightarrow> jsval" where
  "getprop_opt (JObj kvs) k = (case map_of kvs k of None \<Rightarrow> JUndefined | Some v \<Rightarrow> v)"
| "getprop_opt v k = JUndefined"

subsection \<open>Conversion to string\<close>

fun digit_char :: "nat \<Rightarrow> char" where
  "digit_char n = char_of (48 + n)"

fun dec :: "nat \<Rightarrow> string" where
  "dec n = (if n < 10 then [digit_char n] else dec (n div 10) @ [digit_char (n mod 10)])"

declare dec.simps [simp del]

definition dec_int :: "int \<Rightarrow> string" where
  "dec_int i = (if i < 0 then CHR ''-'' # dec (nat (- i)) else dec (nat i))"

fun sequence_sum :: "('e + 'a) list \<Rightarrow> 'e + 'a list" where
  "sequence_sum [] = Inr []"
| "sequence_sum (Inl e # rs) = Inl e"
| "sequence_sum (Inr x # rs) = (case sequence_sum rs of Inl e \<Rightarrow> Inl e | Inr xs \<Rightarrow> Inr (x # xs))"

fun join_comma :: "string list \<Rightarrow> string" where
  "join_comma [] = []"
| "join_comma [s] = s"
| "join_comma (s # t # ss) = s @ '','' @ join_comma (t # ss)"

text \<open>
  ToString, as a template literal \<^verbatim>\<open>`${v}`\<close> applies it. An array is joined with commas,
  \<open>undefined\<close> and \<open>null\<close> elements giving the empty string. An object decoded from
  JSON has no callable property: with an own \<^verbatim>\<open>toString\<close> property the conversion
  raises a TypeError, without one \<^verbatim>\<open>Object.prototype.toString\<close> answers. Exact for
  numbers below \<open>10 ^ 21\<close> in absolute value.
\<close>

fun js_ToString :: "jsval \<Rightarrow> js_error + string" where
  "js_ToString JUndefined = Inr ''undefined''"
| "js_ToString JNull = Inr ''null''"
| "js_ToString (JBool b) = Inr (if b then ''true'' else ''false'')"
| "js_ToString (JNum n) = Inr (dec_int n)"
| "js_ToString (JStr s) = Inr s"
| "js_ToString (JArr xs) =
     (case sequence_sum (map (\<lambda>x. if x = JUndefined \<or> x = JNull then Inr [] else js_ToString x) xs) of
        Inl e \<Rightarrow> Inl e
      | Inr ss \<Rightarrow> Inr (join_comma ss))"
| "js_ToString (JObj kvs) =
     (if ''toString'' \<in> set (map fst kvs) then Inl TypeError else Inr ''[object Object]'')"

subsection \<open>The document written by JSON.stringify\<close>

text \<open>
  \<^verbatim>\<open>JSON.stringify\<close> is modelled up to concrete syntax: the result is the JSON document
  as a tree. A property whose value is \<open>undefined\<close> is left out, an \<open>undefined\<close> array
  element becomes \<open>null\<close>.
\<close>

fun JSON_stringify :: "jsval \<Rightarrow> jsval" where
  "JSON_stringify (JArr xs) =
     JArr (map (\<lambda>x. if x = JUndefined then JNull else JSON_stringify x) xs)"
| "JSON_stringify (JObj kvs) =
     JObj (map (\<lambda>(k, v). (k, JSON_stringify v)) (filter (\<lambda>(k, v). v \<noteq> JUndefined) kvs))"
| "JSON_stringify v = v"

section \<open>Strings and the SSE data pattern\<close>

text \<open>\<^verbatim>\<open>s.startsWith(p)\<close> and \<^verbatim>\<open>s.includes(sub)\<close>\<close>

fun starts_with :: "string \<Rightarrow> string \<Rightarrow> bool" where
  "starts_with s [] = True"
| "starts_with [] (p # ps) = False"
| "starts_with (c # cs) (p # ps) = (c = p \<and> starts_with cs ps)"

fun str_includes :: "string \<Rightarrow> string \<Rightarrow> bool" where
  "str_includes [] sub = (sub = [])"
| "str_includes (c # cs) sub = (starts_with (c # cs) sub \<or> str_includes cs sub)"

text \<open>
  The characters the regular expression's \<^verbatim>\<open>.\<close> does not match: line feed and carriage
  return (U+2028 and U+2029 are not 8-bit characters).
\<close>

definition is_line_terminator :: "char \<Rightarrow> bool" where
  "is_line_terminator c = (c = CHR 0x0A \<or> c = CHR 0x0D)"

text \<open>
  \<^verbatim>\<open>text.match(/data: (.+)/)\<close>, giving the first capture group of the match
  (\<^verbatim>\<open>dataMatch[1]\<close>) and \<open>None\<close> for \<^verbatim>\<open>null\<close>. The pattern is not anchored: the match is the
  leftmost place of the text where \<^verbatim>\<open>data: \<close> is followed by a character of the same
  line, and the group runs to the end of that line.
\<close>

fun match_data :: "string \<Rightarrow> string option" where
  "match_data [] = None"
| "match_data (c # cs) =
     (if starts_with (c # cs) ''data: '' \<and>
         (case drop 6 (c # cs) of [] \<Rightarrow> False | d # ds \<Rightarrow> \<not> is_line_terminator d)
      then Some (takeWhile (\<lambda>d. \<not> is_line_terminator d) (drop 6 (c # cs)))
      else match_data cs)"

section \<open>The HTTP layer\<close>

text \<open>
  What \<^verbatim>\<open>fetch\<close> is given and what it resolves to. \<open>content_type\<close> is
  \<^verbatim>\<open>response.headers.get("content-type")\<close> (\<open>None\<close> for \<^verbatim>\<open>null\<close>); \<open>body_text\<close> is the
  outcome of reading the whole body as text, which the platform can fail to do.
  The body of a request is the document \<^verbatim>\<open>JSON.stringify\<close> wrote.
\<close>

record http_request =
  url :: jsval
  http_method :: string
  headers :: "(string \<times> string) list"
  body :: jsval

record http_response =
  status :: nat
  statusText :: string
  content_type :: "string option"
  body_text :: "js_error + string"

text \<open>\<^verbatim>\<open>response.ok\<close>\<close>

definition ok :: "http_response \<Rightarrow> bool" where
  "ok response = (200 \<le> status response \<and> status response \<le> 299)"

text \<open>
  The network is a parameter: a server answers a request, knowing the requests sent
  before it, with a response or with the error \<^verbatim>\<open>fetch\<close> rejects with. The platform's
  \<^verbatim>\<open>JSON.parse\<close> is a parameter too (a \<open>parser\<close>); \<^verbatim>\<open>response.json()\<close> reads the body and
  parses it by the same grammar.
\<close>

type_synonym server = "http_request list \<Rightarrow> http_request \<Rightarrow> js_error + http_response"

type_synonym parser = "string \<Rightarrow> js_error + jsval"

definition sbind :: "'e + 'a \<Rightarrow> ('a \<Rightarrow> 'e + 'b) \<Rightarrow> 'e + 'b" where
  "sbind m f = (case m of Inl e \<Rightarrow> Inl e | Inr x \<Rightarrow> f x)"

section \<open>The exchange\<close>

text \<open>
  The request literal of \<^verbatim>\<open>makeRequest\<close>, the same text in all variants but for the id:
  \<^verbatim>\<open>{ jsonrpc: "2.0", method, id: ..., ...(params && { params }) }\<close>.
  Spreading a falsy value adds no property.
\<close>

definition build_request :: "int \<Rightarrow> string \<Rightarrow> jsval \<Rightarrow> jsval" where
  "build_request i method params =
     JObj ([(''jsonrpc'', JStr ''2.0''), (''method'', JStr method), (''id'', JNum i)] @
           (if truthy params then [(''params'', params)] else []))"

text \<open>The argument of \<^verbatim>\<open>fetch\<close>.\<close>

definition post_request :: "jsval \<Rightarrow> jsval \<Rightarrow> http_request" where
  "post_request u request =
     \<lparr>url = u, http_method = ''POST'',
      headers = [(''Content-Type'', ''application/json''),
                 (''Accept'', ''application/json,text/event-stream'')],
      body = JSON_stringify request\<rparr>"

text \<open>\<^verbatim>\<open>contentType?.includes("text/event-stream")\<close>, a test sensitive to case.\<close>

definition is_event_stream :: "http_response \<Rightarrow> bool" where
  "is_event_stream response =
     (case content_type response of
        None \<Rightarrow> False
      | Some contentType \<Rightarrow> str_includes contentType ''text/event-stream'')"

text \<open>
  The statements of \<^verbatim>\<open>makeRequest\<close> after \<^verbatim>\<open>fetch\<close> has resolved, again the same text in
  all variants: the status check, then the branch on the content type. In the
  event-stream branch a text without a match runs off the end of the function, which
  then returns \<open>undefined\<close>.
\<close>

definition handle_response :: "parser \<Rightarrow> http_response \<Rightarrow> js_error + jsval" where
  "handle_response parse response =
     (if \<not> ok response
      then Inl (Error (''HTTP '' @ dec (status response) @ '': '' @ statusText response))
      else if is_event_stream response
      then sbind (body_text response) (\<lambda>text.
             case match_data text of
               Some payload \<Rightarrow> parse payload
             | None \<Rightarrow> Inr JUndefined)
      else sbind (body_text response) parse)"

subsection \<open>The command-line client (examples/basic-typescript/index.ts)\<close>

record client =
  serverUrl :: string
  requestId :: int

text \<open>
  The state of a run is the client object and the list of the requests sent so far.
\<close>

type_synonym session = "client \<times> http_request list"

text \<open>
  The constructor reads the environment variable (\<open>None\<close> when it is not set). It is
  given the list of the requests sent so far and returns it as it was: the source's
  constructor contains no call of \<^verbatim>\<open>fetch\<close>.
\<close>

definition constructor ::
    "string option \<Rightarrow> http_request list \<Rightarrow> (js_error + client) \<times> http_request list" where
  "constructor env sent =
     (let url = (case env of None \<Rightarrow> [] | Some v \<Rightarrow> v)
      in if url = []
         then (Inl (Error ''NEXT_PUBLIC_MCP_SERVER_URL environment variable is required''), sent)
         else (Inr \<lparr>serverUrl = url, requestId = 1\<rparr>, sent))"

text \<open>
  \<^verbatim>\<open>n++\<close> on a number: above \<open>2 ^ 53\<close> the successor is not representable and the sum
  rounds back. Exact from \<open>- (2 ^ 53)\<close> to \<open>2 ^ 53\<close>, which holds every value of a counter
  that starts at 1.
\<close>

definition js_succ :: "int \<Rightarrow> int" where
  "js_succ n = (if n < 2 ^ 53 then n + 1 else n)"

text \<open>
  \<^verbatim>\<open>makeRequest\<close> of the class. The \<^verbatim>\<open>catch\<close> of the source logs and rethrows, so every
  error passes through.
\<close>

definition makeRequest ::
    "server \<Rightarrow> parser \<Rightarrow> string \<Rightarrow> jsval \<Rightarrow> session \<Rightarrow> (js_error + jsval) \<times> session" where
  "makeRequest srv parse method params st =
     (let c = fst st; sent = snd st;
          request = build_request (requestId c) method params;
          c' = c\<lparr>requestId := js_succ (requestId c)\<rparr>;
          rq = post_request (JStr (serverUrl c)) request
      in (sbind (srv sent rq) (handle_response parse), (c', sent @ [rq])))"

text \<open>
  \<^verbatim>\<open>if (response.error) { throw new Error(`<prefix>: ${response.error.message}`); }\<close>
\<close>

definition throw_if_error :: "string \<Rightarrow> jsval \<Rightarrow> js_error + unit" where
  "throw_if_error prefix response =
     sbind (getprop response ''error'') (\<lambda>err.
       if truthy err
       then sbind (getprop err ''message'') (\<lambda>m.
              sbind (js_ToString m) (\<lambda>s.
                Inl (Error (prefix @ '': '' @ s))))
       else Inr ())"

text \<open>
  The logging loop of \<^verbatim>\<open>listAvailableTools\<close>, for the exceptions it can raise: the
  output of \<^verbatim>\<open>console.log\<close> is not modelled. A truthy value that is not an array has no
  callable \<^verbatim>\<open>forEach\<close>.
\<close>

definition log_tool :: "jsval \<Rightarrow> js_error + unit" where
  "log_tool tool =
     sbind (getprop tool ''name'') (\<lambda>n.
       sbind (js_ToString n) (\<lambda>_.
         sbind (getprop tool ''description'') (\<lambda>d.
           sbind (js_ToString d) (\<lambda>_. Inr ()))))"

definition forEach_log :: "jsval \<Rightarrow> js_error + unit" where
  "forEach_log tools =
     (case tools of
        JArr xs \<Rightarrow> sbind (sequence_sum (map log_tool xs)) (\<lambda>_. Inr ())
      | _ \<Rightarrow> Inl TypeError)"

text \<open>
  \<^verbatim>\<open>response.result?.tools || []\<close>, the expression of \<^verbatim>\<open>listAvailableTools\<close> and of the
  connect route (\<^verbatim>\<open>toolsResponse.result?.tools || []\<close>). It is evaluated after
  \<^verbatim>\<open>response.error\<close> has been read, so \<open>response\<close> is neither \<open>undefined\<close> nor \<open>null\<close>.
\<close>

definition tools_of :: "jsval \<Rightarrow> jsval" where
  "tools_of response = js_or (getprop_opt (getprop_opt response ''result'') ''tools'') (JArr [])"

definition listAvailableTools ::
    "server \<Rightarrow> parser \<Rightarrow> session \<Rightarrow> (js_error + jsval) \<times> session" where
  "listAvailableTools srv parse st =
     (let (r, st') = makeRequest srv parse ''tools/list'' JUndefined st
      in (sbind r (\<lambda>response.
            sbind (throw_if_error ''Failed to list tools'' response) (\<lambda>_.
              let tools = tools_of response
              in sbind (forEach_log tools) (\<lambda>_. Inr tools))),
          st'))"

definition executeTool ::
    "server \<Rightarrow> parser \<Rightarrow> string \<Rightarrow> jsval \<Rightarrow> session \<Rightarrow> (js_error + jsval) \<times> session" where
  "executeTool srv parse toolName args st =
     (let (r, st') = makeRequest srv parse ''tools/call''
                       (JObj [(''name'', JStr toolName), (''arguments'', args)]) st
      in (sbind r (\<lambda>response.
            sbind (throw_if_error ''Tool execution failed'' response) (\<lambda>_.
              getprop response ''result'')),
          st'))"

subsection \<open>The web routes (app/api/mcp/execute/route.ts, app/api/mcp/connect/route.ts)\<close>

text \<open>
  The product \<^verbatim>\<open>Math.random() * 1000000\<close> is a product of IEEE 754 doubles: the exact
  product, rounded to the nearest double, a tie going to the double whose last mantissa
  bit is 0. A double is a rational number, and the arithmetic is modelled on \<open>rat\<close>.
  \<open>binade p\<close> is the exponent \<open>e\<close> of a positive \<open>p\<close>, the integer with
  \<open>2 ^ e \<le> p < 2 ^ (e + 1)\<close>; the doubles of that binade are the multiples of
  \<open>2 ^ (e - 52)\<close>, and below \<open>2 ^ (- 1022)\<close> (the subnormal numbers) the multiples of
  \<open>2 ^ (- 1074)\<close>. \<open>round_double\<close> is exact for \<open>0 \<le> p < 2 ^ 1024\<close>.
\<close>

fun bit_length :: "nat \<Rightarrow> nat" where
  "bit_length n = (if 0 < n then Suc (bit_length (n div 2)) else 0)"

declare bit_length.simps [simp del]

definition two_powi :: "int \<Rightarrow> rat" where
  "two_powi e = (if 0 \<le> e then 2 ^ nat e else 1 / 2 ^ nat (- e))"

definition binade :: "rat \<Rightarrow> int" where
  "binade p =
     (if 1 \<le> p then int (bit_length (nat \<lfloor>p\<rfloor>)) - 1
      else - int (bit_length (nat (\<lceil>1 / p\<rceil> - 1))))"

definition round_half_even :: "rat \<Rightarrow> int" where
  "round_half_even q =
     (let f = \<lfloor>q\<rfloor>; d = q - of_int f
      in if d < 1 / 2 then f
         else if 1 / 2 < d then f + 1
         else if even f then f else f + 1)"

definition round_double :: "rat \<Rightarrow> rat" where
  "round_double p =
     (if p \<le> 0 then 0
      else let ulp = two_powi (max (binade p) (- 1022) - 52)
           in of_int (round_half_even (p / ulp)) * ulp)"

text \<open>
  \<^verbatim>\<open>Math.floor(Math.random() * 1000000)\<close>, as a function of the double \<open>u\<close> that
  \<^verbatim>\<open>Math.random()\<close> returned (\<open>0 \<le> u < 1\<close>, so \<open>u \<le> 1 - 1 / 2 ^ 53\<close>).
\<close>

definition random_id :: "rat \<Rightarrow> int" where
  "random_id u = \<lfloor>round_double (u * 1000000)\<rfloor>"

text \<open>
  \<^verbatim>\<open>makeRequest(serverUrl, method, params)\<close> of the two routes, a free function with the same
  text in both files. \<open>serverUrl\<close> is a property of a decoded request body, so any value.
\<close>

definition makeRequest_route ::
    "server \<Rightarrow> parser \<Rightarrow> rat \<Rightarrow> jsval \<Rightarrow> string \<Rightarrow> jsval \<Rightarrow> http_request list \<Rightarrow>
     (js_error + jsval) \<times> http_request list" where
  "makeRequest_route srv parse u server_url method params sent =
     (let request = build_request (random_id u) method params;
          rq = post_request server_url request
      in (sbind (srv sent rq) (handle_response parse), sent @ [rq]))"

text \<open>
  What a route answers. \<open>NextResponse_json b s\<close> is \<^verbatim>\<open>NextResponse.json(b, { status: s })\<close>
  with the document of \<open>b\<close>; \<open>NextResponse_failure p e\<close> is the answer of the \<^verbatim>\<open>catch\<close>,
  \<^verbatim>\<open>NextResponse.json({ error: `<p>: ${e}` }, { status: 500 })\<close>, for the caught error \<open>e\<close>.
\<close>

datatype next_response =
    NextResponse_json jsval nat
  | NextResponse_failure string js_error

text \<open>
  \<^verbatim>\<open>response.result?.content || []\<close> of the execute route, evaluated after
  \<^verbatim>\<open>response.error\<close> has been read.
\<close>

definition content_of :: "jsval \<Rightarrow> jsval" where
  "content_of response =
     js_or (getprop_opt (getprop_opt response ''result'') ''content'') (JArr [])"

text \<open>
  \<^verbatim>\<open>POST\<close> of the execute route. \<open>request_json\<close> is the outcome of \<^verbatim>\<open>request.json()\<close>.
\<close>

definition POST_execute ::
    "server \<Rightarrow> parser \<Rightarrow> rat \<Rightarrow> js_error + jsval \<Rightarrow> http_request list \<Rightarrow>
     next_response \<times> http_request list" where
  "POST_execute srv parse u request_json sent =
     (let destructured =
            sbind request_json (\<lambda>b.
              sbind (getprop b ''serverUrl'') (\<lambda>server_url.
                sbind (getprop b ''toolName'') (\<lambda>toolName.
                  sbind (getprop b ''arguments'') (\<lambda>toolArgs.
                    Inr (server_url, toolName, toolArgs)))))
      in case destructured of
           Inl e \<Rightarrow> (NextResponse_failure ''Failed to execute tool'' e, sent)
         | Inr (server_url, toolName, toolArgs) \<Rightarrow>
             if \<not> truthy server_url \<or> \<not> truthy toolName
             then (NextResponse_json (JObj [(''error'', JStr ''Missing required parameters'')]) 400,
                   sent)
             else
               let (r, sent') =
                     makeRequest_route srv parse u server_url ''tools/call''
                       (JObj [(''name'', toolName), (''arguments'', js_or toolArgs (JObj []))]) sent;
                   answer =
                     sbind r (\<lambda>response.
                       sbind (throw_if_error ''Tool execution failed'' response) (\<lambda>_.
                         Inr (NextResponse_json
                                (JSON_stringify (JObj [(''content'', content_of response)]))
                                200)))
               in (case answer of
                     Inl e \<Rightarrow> NextResponse_failure ''Failed to execute tool'' e
                   | Inr a \<Rightarrow> a,
                   sent'))"

section \<open>Sessions and vocabulary of the properties\<close>

text \<open>The \<^verbatim>\<open>id\<close> of a request that was sent.\<close>

definition request_id :: "http_request \<Rightarrow> jsval" where
  "request_id rq = getprop_opt (body rq) ''id''"

text \<open>
  A session of the command-line client: any sequence of calls of \<^verbatim>\<open>makeRequest\<close> through
  one client object, each with its method and params. Every operation of the class sends
  its request through \<^verbatim>\<open>makeRequest\<close>.
\<close>

fun run_requests :: "server \<Rightarrow> parser \<Rightarrow> (string \<times> jsval) list \<Rightarrow> session \<Rightarrow> session" where
  "run_requests srv parse [] st = st"
| "run_requests srv parse ((method, params) # calls) st =
     run_requests srv parse calls (snd (makeRequest srv parse method params st))"

text \<open>
  The same for the routes' function: each call comes with the number its
  \<^verbatim>\<open>Math.random()\<close> returns.
\<close>

fun run_requests_route ::
    "server \<Rightarrow> parser \<Rightarrow> jsval \<Rightarrow> (rat \<times> string \<times> jsval) list \<Rightarrow> http_request list \<Rightarrow>
     http_request list" where
  "run_requests_route srv parse server_url [] sent = sent"
| "run_requests_route srv parse server_url ((u, method, params) # calls) sent =
     run_requests_route srv parse server_url calls
       (snd (makeRequest_route srv parse u server_url method params sent))"

text \<open>A value of the JSON data model: no \<open>undefined\<close> inside.\<close>

fun is_json :: "jsval \<Rightarrow> bool" where
  "is_json JUndefined = False"
| "is_json (JArr xs) = list_all is_json xs"
| "is_json (JObj kvs) = list_all (\<lambda>kv. is_json (snd kv)) kvs"
| "is_json v = True"

text \<open>A structured value: an object or an array.\<close>

fun is_structured :: "jsval \<Rightarrow> bool" where
  "is_structured (JArr xs) = True"
| "is_structured (JObj kvs) = True"
| "is_structured v = False"

text \<open>
  A tool descriptor as the listing prints it: an object whose \<^verbatim>\<open>name\<close> and
  \<^verbatim>\<open>description\<close> are strings or absent.
\<close>

definition string_or_absent :: "jsval \<Rightarrow> bool" where
  "string_or_absent v = (case v of JUndefined \<Rightarrow> True | JStr s \<Rightarrow> True | _ \<Rightarrow> False)"

definition tool_descriptor :: "jsval \<Rightarrow> bool" where
  "tool_descriptor t =
     (case t of
        JObj kvs \<Rightarrow> string_or_absent (getprop_opt t ''name'') \<and>
                    string_or_absent (getprop_opt t ''description'')
      | _ \<Rightarrow> False)"

text \<open>
  The place of a text where the pattern \<^verbatim>\<open>/data: (.+)/\<close> matches at the first character.
\<close>

definition data_at :: "string \<Rightarrow> bool" where
  "data_at t = (6 < length t \<and> take 6 t = ''data: '' \<and> \<not> is_line_terminator (t ! 6))"

text \<open>
  A mocked HTTP layer: it answers every request with the given response. The two
  fixtures are a 2xx response in JSON mode and one in event-stream mode.
\<close>

definition mock :: "http_response \<Rightarrow> server" where
  "mock response = (\<lambda>sent rq. Inr response)"

definition json_response :: "string \<Rightarrow> http_response" where
  "json_response text =
     \<lparr>status = 200, statusText = ''OK'', content_type = Some ''application/json'',
      body_text = Inr text\<rparr>"

definition sse_response :: "string \<Rightarrow> http_response" where
  "sse_response text =
     \<lparr>status = 200, statusText = ''OK'', content_type = Some ''text/event-stream'',
      body_text = Inr text\<rparr>"

definition client0 :: client where
  "client0 = \<lparr>serverUrl = ''https://mcp.example.test/mcp/token'', requestId = 1\<rparr>"

section \<open>A JSON parser for concrete inputs\<close>

text \<open>
  The theorems below hold for every parser. Where a concrete response text is run
  through the client, the parser is \<open>JSON_parse\<close>: \<^verbatim>\<open>JSON.parse\<close> on the documents built from
  objects, arrays, strings with the two-character escapes, integers and the three
  literals. Numbers with a fraction or an exponent and \<^verbatim>\<open>\u\<close> escapes are outside the
  model's values; no text containing one is evaluated. The first argument of the
  recursive functions bounds the recursion depth by the length of the text. A repeated
  property name keeps its first place and takes the last value.
\<close>

definition is_ws :: "char \<Rightarrow> bool" where
  "is_ws c = (c = CHR '' '' \<or> c = CHR 0x09 \<or> c = CHR 0x0A \<or> c = CHR 0x0D)"

definition skip_ws :: "string \<Rightarrow> string" where
  "skip_ws s = dropWhile is_ws s"

definition is_digit :: "char \<Rightarrow> bool" where
  "is_digit c = (48 \<le> (of_char c :: nat) \<and> (of_char c :: nat) \<le> 57)"

definition digit_val :: "char \<Rightarrow> int" where
  "digit_val c = int (of_char c) - 48"

definition unescape :: "char \<Rightarrow> char option" where
  "unescape e =
     (if e = CHR 0x22 then Some (CHR 0x22)
      else if e = CHR 0x5C then Some (CHR 0x5C)
      else if e = CHR ''/'' then Some (CHR ''/'')
      else if e = CHR ''b'' then Some (CHR 0x08)
      else if e = CHR ''f'' then Some (CHR 0x0C)
      else if e = CHR ''n'' then Some (CHR 0x0A)
      else if e = CHR ''r'' then Some (CHR 0x0D)
      else if e = CHR ''t'' then Some (CHR 0x09)
      else None)"

text \<open>The characters of a string literal after its opening quote, and the rest.\<close>

fun parse_chars :: "string \<Rightarrow> (string \<times> string) option" where
  "parse_chars [] = None"
| "parse_chars [c] = (if c = CHR 0x22 then Some ([], []) else None)"
| "parse_chars (c # e # cs) =
     (if c = CHR 0x22 then Some ([], e # cs)
      else if c = CHR 0x5C
      then (case unescape e of
              None \<Rightarrow> None
            | Some x \<Rightarrow> map_option (\<lambda>(s, r). (x # s, r)) (parse_chars cs))
      else if of_char c < (32 :: nat) then None
      else map_option (\<lambda>(s, r). (c # s, r)) (parse_chars (e # cs)))"

definition digits_val :: "string \<Rightarrow> int" where
  "digits_val ds = foldl (\<lambda>a d. 10 * a + digit_val d) 0 ds"

text \<open>An integer: an optional minus sign and digits without a leading zero.\<close>

definition parse_number :: "string \<Rightarrow> (jsval \<times> string) option" where
  "parse_number s =
     (let neg = (s \<noteq> [] \<and> hd s = CHR ''-'');
          t = (if neg then tl s else s);
          ds = takeWhile is_digit t;
          r = dropWhile is_digit t
      in if ds = [] \<or> (hd ds = CHR ''0'' \<and> tl ds \<noteq> []) then None
         else if r \<noteq> [] \<and> (hd r = CHR ''.'' \<or> hd r = CHR ''e'' \<or> hd r = CHR ''E'') then None
         else Some (JNum (if neg then - digits_val ds else digits_val ds), r))"

fun obj_put :: "string \<Rightarrow> jsval \<Rightarrow> (string \<times> jsval) list \<Rightarrow> (string \<times> jsval) list" where
  "obj_put k v [] = [(k, v)]"
| "obj_put k v ((k', v') # kvs) = (if k = k' then (k, v) # kvs else (k', v') # obj_put k v kvs)"

fun parse_value :: "string \<Rightarrow> string \<Rightarrow> (jsval \<times> string) option"
  and parse_elements :: "string \<Rightarrow> jsval list \<Rightarrow> string \<Rightarrow> (jsval \<times> string) option"
  and parse_members :: "string \<Rightarrow> (string \<times> jsval) list \<Rightarrow> string \<Rightarrow> (jsval \<times> string) option"
where
  "parse_value [] s = None"
| "parse_value (f # fuel) s =
     (case skip_ws s of
        [] \<Rightarrow> None
      | c # cs \<Rightarrow>
          if c = CHR 0x7B
          then (case skip_ws cs of
                  [] \<Rightarrow> None
                | d # ds \<Rightarrow> if d = CHR 0x7D then Some (JObj [], ds) else parse_members fuel [] cs)
          else if c = CHR 0x5B
          then (case skip_ws cs of
                  [] \<Rightarrow> None
                | d # ds \<Rightarrow> if d = CHR 0x5D then Some (JArr [], ds) else parse_elements fuel [] cs)
          else if c = CHR 0x22 then map_option (\<lambda>(str, r). (JStr str, r)) (parse_chars cs)
          else if starts_with (c # cs) ''true'' then Some (JBool True, drop 4 (c # cs))
          else if starts_with (c # cs) ''false'' then Some (JBool False, drop 5 (c # cs))
          else if starts_with (c # cs) ''null'' then Some (JNull, drop 4 (c # cs))
          else parse_number (c # cs))"
| "parse_elements [] acc s = None"
| "parse_elements (f # fuel) acc s =
     (case parse_value fuel s of
        None \<Rightarrow> None
      | Some (v, r) \<Rightarrow>
          (case skip_ws r of
             [] \<Rightarrow> None
           | d # ds \<Rightarrow>
               if d = CHR '','' then parse_elements fuel (acc @ [v]) ds
               else if d = CHR 0x5D then Some (JArr (acc @ [v]), ds)
               else None))"
| "parse_members [] acc s = None"
| "parse_members (f # fuel) acc s =
     (case skip_ws s of
        [] \<Rightarrow> None
      | q # qs \<Rightarrow>
          if q \<noteq> CHR 0x22 then None
          else (case parse_chars qs of
                  None \<Rightarrow> None
                | Some (k, r1) \<Rightarrow>
                    (case skip_ws r1 of
                       [] \<Rightarrow> None
                     | colon # r2 \<Rightarrow>
                         if colon \<noteq> CHR '':'' then None
                         else (case parse_value fuel r2 of
                                 None \<Rightarrow> None
                               | Some (v, r3) \<Rightarrow>
                                   (case skip_ws r3 of
                                      [] \<Rightarrow> None
                                    | d # ds \<Rightarrow>
                                        if d = CHR '','' then parse_members fuel (obj_put k v acc) ds
                                        else if d = CHR 0x7D then Some (JObj (obj_put k v acc), ds)
                                        else None)))))"

definition JSON_parse :: parser where
  "JSON_parse text =
     (case parse_value (CHR ''x'' # text) text of
        None \<Rightarrow> Inl SyntaxError
      | Some (v, r) \<Rightarrow> if skip_ws r = [] then Inr v else Inl SyntaxError)"

section \<open>Basic facts\<close>

lemma sbind_Inr [simp]: "sbind (Inr x) f = f x"
  by (simp add: sbind_def)

lemma sbind_Inl [simp]: "sbind (Inl e) f = Inl e"
  by (simp add: sbind_def)

lemma makeRequest_eq:
  "makeRequest srv parse method params (c, sent) =
     (sbind (srv sent (post_request (JStr (serverUrl c)) (build_request (requestId c) method params)))
        (handle_response parse),
      (c\<lparr>requestId := js_succ (requestId c)\<rparr>,
       sent @ [post_request (JStr (serverUrl c)) (build_request (requestId c) method params)]))"
  by (simp add: makeRequest_def Let_def)

lemma makeRequest_route_eq:
  "makeRequest_route srv parse u server_url method params sent =
     (sbind (srv sent (post_request server_url (build_request (random_id u) method params)))
        (handle_response parse),
      sent @ [post_request server_url (build_request (random_id u) method params)])"
  by (simp add: makeRequest_route_def Let_def)

lemma makeRequest_mock:
  "fst (makeRequest (mock response) parse method params st) = handle_response parse response"
  by (cases st) (simp add: makeRequest_eq mock_def)

lemma makeRequest_route_mock:
  "fst (makeRequest_route (mock response) parse u server_url method params sent) =
     handle_response parse response"
  by (simp add: makeRequest_route_eq mock_def)

lemma handle_response_not_ok:
  "\<not> ok response \<Longrightarrow>
   handle_response parse response =
     Inl (Error (''HTTP '' @ dec (status response) @ '': '' @ statusText response))"
  by (simp add: handle_response_def)

lemma handle_response_json:
  "ok response \<Longrightarrow> \<not> is_event_stream response \<Longrightarrow> body_text response = Inr text \<Longrightarrow>
   handle_response parse response = parse text"
  by (simp add: handle_response_def)

lemma handle_response_sse:
  "ok response \<Longrightarrow> is_event_stream response \<Longrightarrow> body_text response = Inr text \<Longrightarrow>
   handle_response parse response =
     (case match_data text of Some payload \<Rightarrow> parse payload | None \<Rightarrow> Inr JUndefined)"
  by (simp add: handle_response_def)

lemma bit_length_250000: "bit_length 250000 = 18"
  by (simp add: bit_length.simps)

lemma random_id_quarter: "random_id (1 / 4) = 250000"
  by (simp add: random_id_def round_double_def binade_def bit_length_250000 two_powi_def
      round_half_even_def Let_def)

section \<open>The first match of the data pattern\<close>

lemma starts_with_take: "starts_with s p = (take (length p) s = p)"
  by (induction s p rule: starts_with.induct) auto

lemma starts_with_data: "starts_with t ''data: '' = (take 6 t = ''data: '')"
proof -
  have "length ''data: '' = 6" by simp
  then show ?thesis using starts_with_take[of t "''data: ''"] by (simp only:)
qed

lemma data_cond:
  "(starts_with t ''data: '' \<and> (case drop 6 t of [] \<Rightarrow> False | d # ds \<Rightarrow> \<not> is_line_terminator d)) =
   (6 < length t \<and> take 6 t = ''data: '' \<and> \<not> is_line_terminator (t ! 6))"
proof (cases "6 < length t")
  case True
  then have "drop 6 t = t ! 6 # drop 7 t"
    using Cons_nth_drop_Suc[of 6 t] by simp
  with True show ?thesis by (simp only: starts_with_data list.case simp_thms)
next
  case False
  then have "drop 6 t = []" by simp
  with False show ?thesis by (simp only: list.case simp_thms)
qed

lemma match_data_hit:
  assumes "data_at (c # cs)"
  shows "match_data (c # cs) = Some (takeWhile (\<lambda>d. \<not> is_line_terminator d) (drop 6 (c # cs)))"
proof -
  from assms have "starts_with (c # cs) ''data: '' \<and>
      (case drop 6 (c # cs) of [] \<Rightarrow> False | d # ds \<Rightarrow> \<not> is_line_terminator d)"
    unfolding data_at_def data_cond .
  then show ?thesis by (subst match_data.simps) (rule if_P)
qed

lemma match_data_miss:
  assumes "\<not> data_at (c # cs)"
  shows "match_data (c # cs) = match_data cs"
proof -
  from assms have "\<not> (starts_with (c # cs) ''data: '' \<and>
      (case drop 6 (c # cs) of [] \<Rightarrow> False | d # ds \<Rightarrow> \<not> is_line_terminator d))"
    unfolding data_at_def data_cond .
  then show ?thesis by (subst match_data.simps) (rule if_not_P)
qed

lemma takeWhile_line:
  assumes "\<forall>d\<in>set payload. \<not> is_line_terminator d" "rest = [] \<or> is_line_terminator (hd rest)"
  shows "takeWhile (\<lambda>d. \<not> is_line_terminator d) (payload @ rest) = payload"
proof (cases rest)
  case Nil
  with assms show ?thesis by simp
next
  case (Cons r rs)
  with assms have "is_line_terminator r" by simp
  with assms Cons show ?thesis by (simp add: takeWhile_append2)
qed

lemma match_data_skip:
  "\<forall>i<length pre. \<not> data_at (drop i (pre @ t)) \<Longrightarrow> match_data (pre @ t) = match_data t"
proof (induction pre)
  case Nil
  then show ?case by simp
next
  case (Cons c cs)
  from Cons.prems have "\<not> data_at (drop 0 ((c # cs) @ t))" by blast
  then have here: "match_data ((c # cs) @ t) = match_data (cs @ t)"
    using match_data_miss[of c "cs @ t"] by simp
  have "\<forall>i<length cs. \<not> data_at (drop i (cs @ t))"
  proof (intro allI impI)
    fix i assume "i < length cs"
    then have "Suc i < length (c # cs)" by simp
    with Cons.prems have "\<not> data_at (drop (Suc i) ((c # cs) @ t))" by blast
    then show "\<not> data_at (drop i (cs @ t))" by simp
  qed
  with Cons.IH here show ?case by simp
qed

lemma match_data_here:
  assumes "payload \<noteq> []" "\<forall>d\<in>set payload. \<not> is_line_terminator d"
    and "rest = [] \<or> is_line_terminator (hd rest)"
  shows "match_data (''data: '' @ payload @ rest) = Some payload"
proof -
  obtain p ps where p: "payload = p # ps" using assms(1) by (cases payload) auto
  with assms(2) have np: "\<not> is_line_terminator p" by simp
  have tw: "takeWhile (\<lambda>d. \<not> is_line_terminator d) (payload @ rest) = payload"
    by (rule takeWhile_line[OF assms(2,3)])
  have "data_at (CHR ''d'' # ''ata: '' @ payload @ rest)"
    using np p by (simp add: data_at_def)
  from match_data_hit[OF this] tw show ?thesis by simp
qed

section \<open>Construction of the client\<close>

text \<open>
  Claim C7. Constructing the client with a missing or an empty endpoint (the environment
  variable unset, or set to the empty string) fails, with the error that names the
  variable, and with any other endpoint it succeeds, the request counter at 1. In both
  cases the list of the requests sent is what it was: no request is made.
\<close>

theorem constructor_requires_endpoint:
  "(env = None \<or> env = Some [] \<longrightarrow>
      constructor env sent =
        (Inl (Error ''NEXT_PUBLIC_MCP_SERVER_URL environment variable is required''), sent)) \<and>
   (\<forall>u. env = Some u \<and> u \<noteq> [] \<longrightarrow>
      constructor env sent = (Inr \<lparr>serverUrl = u, requestId = 1\<rparr>, sent))"
  by (auto simp: constructor_def)

text \<open>The theorem at an unset variable, at the empty string and at a URL.\<close>

theorem constructor_requires_endpoint_witness:
  "constructor None [] =
     (Inl (Error ''NEXT_PUBLIC_MCP_SERVER_URL environment variable is required''), []) \<and>
   constructor (Some []) [] =
     (Inl (Error ''NEXT_PUBLIC_MCP_SERVER_URL environment variable is required''), []) \<and>
   constructor (Some ''https://mcp.example.test/mcp/token'') [] =
     (Inr \<lparr>serverUrl = ''https://mcp.example.test/mcp/token'', requestId = 1\<rparr>, [])"
  using constructor_requires_endpoint[of None "[]"]
    constructor_requires_endpoint[of "Some []" "[]"]
    constructor_requires_endpoint[of "Some ''https://mcp.example.test/mcp/token''" "[]"]
  by simp

section \<open>Transport failures\<close>

text \<open>
  Claim C2. Against a response whose status is not 2xx, the exchange fails with the error
  \<^verbatim>\<open>HTTP <status>: <status text>\<close>, in the class and in the routes. The outcome is the
  same for every parser, every content type and every outcome of reading the body,
  also one that fails: neither the body nor the parser is consulted.
\<close>

theorem non_2xx_fails_before_body:
  assumes "\<not> ok response"
  shows "fst (makeRequest (mock response) parse method params st) =
           Inl (Error (''HTTP '' @ dec (status response) @ '': '' @ statusText response)) \<and>
         fst (makeRequest_route (mock response) parse u server_url method params sent) =
           Inl (Error (''HTTP '' @ dec (status response) @ '': '' @ statusText response))"
  using assms by (simp add: makeRequest_mock makeRequest_route_mock handle_response_not_ok)

text \<open>
  The theorem at a 404 whose body cannot be read, with a parser that rejects every text,
  and at a 500 in event-stream mode.
\<close>

theorem non_2xx_fails_before_body_witness:
  "\<not> ok \<lparr>status = 404, statusText = ''Not Found'', content_type = Some ''application/json'',
          body_text = Inl TypeError\<rparr> \<and>
   fst (makeRequest
          (mock \<lparr>status = 404, statusText = ''Not Found'', content_type = Some ''application/json'',
                 body_text = Inl TypeError\<rparr>)
          (\<lambda>text. Inl SyntaxError) ''tools/list'' JUndefined (client0, [])) =
     Inl (Error ''HTTP 404: Not Found'') \<and>
   fst (makeRequest_route
          (mock \<lparr>status = 500, statusText = ''Internal Server Error'',
                 content_type = Some ''text/event-stream'', body_text = Inr ''data: {}''\<rparr>)
          JSON_parse (1 / 4) (JStr ''https://mcp.example.test/mcp/token'') ''tools/list''
          JUndefined []) =
     Inl (Error ''HTTP 500: Internal Server Error'')"
proof -
  have d: "dec 404 = ''404''" "dec 500 = ''500''" by code_simp+
  have a: "\<not> ok \<lparr>status = 404, statusText = ''Not Found'', content_type = Some ''application/json'',
          body_text = Inl TypeError\<rparr>" by (simp add: ok_def)
  have b: "\<not> ok \<lparr>status = 500, statusText = ''Internal Server Error'',
                 content_type = Some ''text/event-stream'', body_text = Inr ''data: {}''\<rparr>"
    by (simp add: ok_def)
  show ?thesis
    using
      non_2xx_fails_before_body[OF a, of "\<lambda>text. Inl SyntaxError" "''tools/list''" JUndefined
        "(client0, [])"]
      non_2xx_fails_before_body[OF b, of JSON_parse "''tools/list''" JUndefined "(client0, [])"
        "1 / 4" "JStr ''https://mcp.example.test/mcp/token''" "[]"]
      a
    by (simp add: d)
qed

section \<open>The two response modes\<close>

text \<open>
  Claim C1, as stated: an event-stream body that contains a line \<^verbatim>\<open>data: <E>\<close> decodes to
  the same envelope as the JSON body \<^verbatim>\<open><E>\<close>. It fails on a stream of two events, a
  notification and then the response: the body contains the line with the response, the
  exchange returns the notification, the first match of the pattern in the whole body.
\<close>

theorem later_data_line_is_not_decoded:
  "fst (makeRequest
          (mock (sse_response
             ''event: message\<newline>data: {\"jsonrpc\":\"2.0\",\"method\":\"notifications/progress\"}\<newline>\<newline>event: message\<newline>data: {\"jsonrpc\":\"2.0\",\"id\":1,\"result\":{\"ok\":true}}\<newline>\<newline>''))
          JSON_parse ''tools/list'' JUndefined (client0, [])) =
     Inr (JObj [(''jsonrpc'', JStr ''2.0''), (''method'', JStr ''notifications/progress'')]) \<and>
   fst (makeRequest
          (mock (json_response ''{\"jsonrpc\":\"2.0\",\"id\":1,\"result\":{\"ok\":true}}''))
          JSON_parse ''tools/list'' JUndefined (client0, [])) =
     Inr (JObj [(''jsonrpc'', JStr ''2.0''), (''id'', JNum 1),
                (''result'', JObj [(''ok'', JBool True)])])"
  by code_simp

text \<open>
  Claim C1, amended. The two modes decode alike when the data line is the first match of
  the pattern: the body is \<open>pre @ ''data: '' @ payload @ rest\<close>, the pattern matches at no
  place of the body that lies in \<open>pre\<close>, the payload is not empty and has no line
  terminator, and the line ends after it. Then the exchange against the event-stream
  response and the exchange against a 2xx response that is not an event stream and whose
  body is the payload have the same outcome, the parser's outcome on the payload (an
  envelope or its error), for every parser, in the class and in the routes.
\<close>

theorem first_data_line_decodes_like_json:
  assumes "ok sse" "is_event_stream sse"
    and "body_text sse = Inr (pre @ ''data: '' @ payload @ rest)"
    and "\<forall>i<length pre. \<not> data_at (drop i (pre @ ''data: '' @ payload @ rest))"
    and "payload \<noteq> []" "\<forall>d\<in>set payload. \<not> is_line_terminator d"
    and "rest = [] \<or> is_line_terminator (hd rest)"
    and "ok plain" "\<not> is_event_stream plain" "body_text plain = Inr payload"
  shows "fst (makeRequest (mock sse) parse method params st) =
           fst (makeRequest (mock plain) parse method params st) \<and>
         fst (makeRequest_route (mock sse) parse u server_url method params sent) =
           fst (makeRequest_route (mock plain) parse u server_url method params sent) \<and>
         fst (makeRequest (mock plain) parse method params st) = parse payload"
proof -
  have "match_data (pre @ ''data: '' @ payload @ rest) = match_data (''data: '' @ payload @ rest)"
    using assms(4) by (rule match_data_skip)
  also have "\<dots> = Some payload"
    using assms(5-7) by (rule match_data_here)
  finally have "handle_response parse sse = parse payload"
    using handle_response_sse[OF assms(1-3)] by simp
  moreover have "handle_response parse plain = parse payload"
    using assms(8-10) by (rule handle_response_json)
  ultimately show ?thesis by (simp add: makeRequest_mock makeRequest_route_mock)
qed

text \<open>The theorem at the event stream of the specification's example.\<close>

theorem first_data_line_decodes_like_json_witness:
  "fst (makeRequest
          (mock (sse_response
             ''event: message\<newline>data: {\"jsonrpc\":\"2.0\",\"id\":1,\"result\":{\"ok\":true}}\<newline>\<newline>''))
          JSON_parse ''tools/list'' JUndefined (client0, [])) =
   fst (makeRequest
          (mock (json_response ''{\"jsonrpc\":\"2.0\",\"id\":1,\"result\":{\"ok\":true}}''))
          JSON_parse ''tools/list'' JUndefined (client0, [])) \<and>
   fst (makeRequest
          (mock (json_response ''{\"jsonrpc\":\"2.0\",\"id\":1,\"result\":{\"ok\":true}}''))
          JSON_parse ''tools/list'' JUndefined (client0, [])) =
   Inr (JObj [(''jsonrpc'', JStr ''2.0''), (''id'', JNum 1),
              (''result'', JObj [(''ok'', JBool True)])])"
proof -
  let ?E = "''{\"jsonrpc\":\"2.0\",\"id\":1,\"result\":{\"ok\":true}}''"
  let ?pre = "''event: message\<newline>''"
  let ?body = "?pre @ ''data: '' @ ?E @ ''\<newline>\<newline>''"
  let ?sse = "sse_response ?body"
  have 1: "ok ?sse" "is_event_stream ?sse"
    by (simp_all add: ok_def sse_response_def is_event_stream_def)
  have 2: "body_text ?sse = Inr ?body"
    by (simp add: sse_response_def)
  have "list_all (\<lambda>i. \<not> data_at (drop i ?body)) [0..<length ?pre]" by code_simp
  then have 3: "\<forall>i<length ?pre. \<not> data_at (drop i ?body)"
    unfolding list_all_iff by (metis atLeastLessThan_iff set_upt zero_le)
  have 4: "?E \<noteq> []" "\<forall>d\<in>set ?E. \<not> is_line_terminator d"
    "''\<newline>\<newline>'' = [] \<or> is_line_terminator (hd ''\<newline>\<newline>'')"
    by (simp_all add: is_line_terminator_def)
  have 5: "ok (json_response ?E)" "\<not> is_event_stream (json_response ?E)"
    "body_text (json_response ?E) = Inr ?E"
    by (simp_all add: ok_def json_response_def is_event_stream_def)
  have 6: "JSON_parse ?E = Inr (JObj [(''jsonrpc'', JStr ''2.0''), (''id'', JNum 1),
              (''result'', JObj [(''ok'', JBool True)])])" by code_simp
  show ?thesis
    using first_data_line_decodes_like_json[OF 1 2 3 4 5, of JSON_parse "''tools/list''"
        JUndefined "(client0, [])"] 6
    by simp
qed

section \<open>An event stream without a data line\<close>

text \<open>
  Claim C3 says that every operation returns a decoded payload or fails with one of the
  four kinds of error, also against a 2xx event stream without a data line. The code
  has a third outcome there: \<^verbatim>\<open>makeRequest\<close> has no statement for a text without a
  match and returns \<open>undefined\<close>; the operations then read \<^verbatim>\<open>response.error\<close> of
  \<open>undefined\<close>, which raises a TypeError of the platform (in the route, answered as
  status 500).
\<close>

theorem event_stream_without_data_returns_undefined:
  assumes "ok response" "is_event_stream response" "body_text response = Inr text"
    and "match_data text = None"
  shows "fst (makeRequest (mock response) parse method params st) = Inr JUndefined \<and>
         fst (makeRequest_route (mock response) parse u server_url method params sent) =
           Inr JUndefined \<and>
         fst (listAvailableTools (mock response) parse st) = Inl TypeError \<and>
         fst (executeTool (mock response) parse toolName args st) = Inl TypeError \<and>
         fst (POST_execute (mock response) parse u
                (Inr (JObj [(''serverUrl'', JStr ''https://mcp.example.test/mcp/token''),
                            (''toolName'', JStr ''list_connectors_alloy'')])) sent) =
           NextResponse_failure ''Failed to execute tool'' TypeError"
proof -
  have h: "handle_response parse response = Inr JUndefined"
    using handle_response_sse[OF assms(1-3)] assms(4) by simp
  have r: "\<And>m p. fst (makeRequest (mock response) parse m p st) = Inr JUndefined"
    by (simp add: makeRequest_mock h)
  have rr: "\<And>m p s. fst (makeRequest_route (mock response) parse u s m p sent) = Inr JUndefined"
    by (simp add: makeRequest_route_mock h)
  have t: "\<And>p. throw_if_error p JUndefined = Inl TypeError"
    by (simp add: throw_if_error_def)
  have a: "fst (listAvailableTools (mock response) parse st) = Inl TypeError"
    using r[of "''tools/list''" JUndefined]
    by (simp add: listAvailableTools_def split_beta t)
  have b: "fst (executeTool (mock response) parse toolName args st) = Inl TypeError"
    using r[of "''tools/call''" "JObj [(''name'', JStr toolName), (''arguments'', args)]"]
    by (simp add: executeTool_def split_beta t)
  have c: "fst (POST_execute (mock response) parse u
                (Inr (JObj [(''serverUrl'', JStr ''https://mcp.example.test/mcp/token''),
                            (''toolName'', JStr ''list_connectors_alloy'')])) sent) =
           NextResponse_failure ''Failed to execute tool'' TypeError"
    by (simp add: POST_execute_def split_beta t rr Let_def)
  from r rr a b c show ?thesis by simp
qed

text \<open>The theorem at the body \<^verbatim>\<open>event: message\<close> followed by an empty line.\<close>

theorem event_stream_without_data_returns_undefined_witness:
  "fst (makeRequest (mock (sse_response ''event: message\<newline>\<newline>'')) JSON_parse
          ''tools/list'' JUndefined (client0, [])) = Inr JUndefined \<and>
   fst (listAvailableTools (mock (sse_response ''event: message\<newline>\<newline>'')) JSON_parse
          (client0, [])) = Inl TypeError \<and>
   fst (executeTool (mock (sse_response ''event: message\<newline>\<newline>'')) JSON_parse
          ''list_connectors_alloy'' (JObj []) (client0, [])) = Inl TypeError"
proof -
  let ?r = "sse_response ''event: message\<newline>\<newline>''"
  have 1: "ok ?r" "is_event_stream ?r" "body_text ?r = Inr ''event: message\<newline>\<newline>''"
    by (simp_all add: ok_def sse_response_def is_event_stream_def)
  have 2: "match_data ''event: message\<newline>\<newline>'' = None" by code_simp
  show ?thesis
    using event_stream_without_data_returns_undefined[OF 1 2, of JSON_parse "''tools/list''"
        JUndefined "(client0, [])" _ _ _ "''list_connectors_alloy''" "JObj []"]
    by simp
qed

section \<open>The request envelope\<close>

lemma is_json_not_undefined: "is_json v \<Longrightarrow> v \<noteq> JUndefined"
  by auto

lemma JSON_stringify_is_json: "is_json v \<Longrightarrow> JSON_stringify v = v"
proof (induction v rule: JSON_stringify.induct)
  case (1 xs)
  have "map (\<lambda>x. if x = JUndefined then JNull else JSON_stringify x) xs = xs"
  proof (rule map_idI)
    fix x assume x: "x \<in> set xs"
    with 1(2) have j: "is_json x" by (simp add: list_all_iff)
    with 1(1) x show "(if x = JUndefined then JNull else JSON_stringify x) = x"
      by (auto dest: is_json_not_undefined)
  qed
  then show ?case by simp
next
  case (2 kvs)
  have all: "\<And>k v. (k, v) \<in> set kvs \<Longrightarrow> is_json v"
    using 2(2) by (auto simp: list_all_iff)
  have f: "filter (\<lambda>(k, v). v \<noteq> JUndefined) kvs = kvs"
    by (rule filter_True) (auto dest: all is_json_not_undefined)
  have ih: "\<And>k v. (k, v) \<in> set kvs \<Longrightarrow> JSON_stringify v = v"
  proof -
    fix k v assume kv: "(k, v) \<in> set kvs"
    then have "is_json v" by (rule all)
    moreover then have "v \<noteq> JUndefined" by (rule is_json_not_undefined)
    ultimately show "JSON_stringify v = v" using 2(1)[of "(k, v)" k v] kv by simp
  qed
  have "map (\<lambda>(k, v). (k, JSON_stringify v)) kvs = kvs"
    by (rule map_idI) (auto simp: ih)
  with f show ?case by simp
qed simp_all

lemma post_request_without_params:
  "\<not> truthy params \<Longrightarrow>
   post_request url_v (build_request i method params) =
     \<lparr>url = url_v, http_method = ''POST'',
      headers = [(''Content-Type'', ''application/json''),
                 (''Accept'', ''application/json,text/event-stream'')],
      body = JObj [(''jsonrpc'', JStr ''2.0''), (''method'', JStr method), (''id'', JNum i)]\<rparr>"
  by (simp add: post_request_def build_request_def)

lemma truthy_not_undefined: "truthy v \<Longrightarrow> v \<noteq> JUndefined"
  by auto

lemma post_request_with_params:
  "truthy params \<Longrightarrow>
   post_request url_v (build_request i method params) =
     \<lparr>url = url_v, http_method = ''POST'',
      headers = [(''Content-Type'', ''application/json''),
                 (''Accept'', ''application/json,text/event-stream'')],
      body = JObj [(''jsonrpc'', JStr ''2.0''), (''method'', JStr method), (''id'', JNum i),
                   (''params'', JSON_stringify params)]\<rparr>"
  by (simp add: post_request_def build_request_def truthy_not_undefined)

lemma structured_truthy: "is_structured v \<Longrightarrow> truthy v"
  by (cases v) auto

text \<open>
  Claim C5. The request that \<^verbatim>\<open>makeRequest\<close> sends is the one request it adds to the list
  of the requests sent. When \<open>params\<close> is absent (\<open>undefined\<close>), the body is the document
  with exactly the members \<^verbatim>\<open>jsonrpc\<close>, \<^verbatim>\<open>method\<close> and \<^verbatim>\<open>id\<close>: it has no \<^verbatim>\<open>params\<close>
  member. When \<open>params\<close> is a structured value of the JSON data model (an object or an
  array, the empty ones included), the body has the fourth member \<^verbatim>\<open>params\<close> whose value
  is that value, unchanged. In the class and in the routes.
\<close>

theorem params_omitted_or_verbatim:
  "(params = JUndefined \<longrightarrow>
      snd (snd (makeRequest srv parse method params (c, sent))) =
        sent @ [\<lparr>url = JStr (serverUrl c), http_method = ''POST'',
                 headers = [(''Content-Type'', ''application/json''),
                            (''Accept'', ''application/json,text/event-stream'')],
                 body = JObj [(''jsonrpc'', JStr ''2.0''), (''method'', JStr method),
                              (''id'', JNum (requestId c))]\<rparr>] \<and>
      snd (makeRequest_route srv parse u server_url method params sent) =
        sent @ [\<lparr>url = server_url, http_method = ''POST'',
                 headers = [(''Content-Type'', ''application/json''),
                            (''Accept'', ''application/json,text/event-stream'')],
                 body = JObj [(''jsonrpc'', JStr ''2.0''), (''method'', JStr method),
                              (''id'', JNum (random_id u))]\<rparr>]) \<and>
   (is_structured params \<and> is_json params \<longrightarrow>
      snd (snd (makeRequest srv parse method params (c, sent))) =
        sent @ [\<lparr>url = JStr (serverUrl c), http_method = ''POST'',
                 headers = [(''Content-Type'', ''application/json''),
                            (''Accept'', ''application/json,text/event-stream'')],
                 body = JObj [(''jsonrpc'', JStr ''2.0''), (''method'', JStr method),
                              (''id'', JNum (requestId c)), (''params'', params)]\<rparr>] \<and>
      snd (makeRequest_route srv parse u server_url method params sent) =
        sent @ [\<lparr>url = server_url, http_method = ''POST'',
                 headers = [(''Content-Type'', ''application/json''),
                            (''Accept'', ''application/json,text/event-stream'')],
                 body = JObj [(''jsonrpc'', JStr ''2.0''), (''method'', JStr method),
                              (''id'', JNum (random_id u)), (''params'', params)]\<rparr>])"
proof (intro conjI impI)
  assume "params = JUndefined"
  then have f: "\<not> truthy params" by simp
  show "snd (snd (makeRequest srv parse method params (c, sent))) =
        sent @ [\<lparr>url = JStr (serverUrl c), http_method = ''POST'',
                 headers = [(''Content-Type'', ''application/json''),
                            (''Accept'', ''application/json,text/event-stream'')],
                 body = JObj [(''jsonrpc'', JStr ''2.0''), (''method'', JStr method),
                              (''id'', JNum (requestId c))]\<rparr>]"
    by (simp add: makeRequest_eq post_request_without_params[OF f])
  show "snd (makeRequest_route srv parse u server_url method params sent) =
        sent @ [\<lparr>url = server_url, http_method = ''POST'',
                 headers = [(''Content-Type'', ''application/json''),
                            (''Accept'', ''application/json,text/event-stream'')],
                 body = JObj [(''jsonrpc'', JStr ''2.0''), (''method'', JStr method),
                              (''id'', JNum (random_id u))]\<rparr>]"
    by (simp add: makeRequest_route_eq post_request_without_params[OF f])
next
  assume a: "is_structured params \<and> is_json params"
  then have t: "truthy params" and j: "JSON_stringify params = params"
    by (simp_all add: structured_truthy JSON_stringify_is_json)
  show "snd (snd (makeRequest srv parse method params (c, sent))) =
        sent @ [\<lparr>url = JStr (serverUrl c), http_method = ''POST'',
                 headers = [(''Content-Type'', ''application/json''),
                            (''Accept'', ''application/json,text/event-stream'')],
                 body = JObj [(''jsonrpc'', JStr ''2.0''), (''method'', JStr method),
                              (''id'', JNum (requestId c)), (''params'', params)]\<rparr>]"
    by (simp add: makeRequest_eq post_request_with_params[OF t] j)
  show "snd (makeRequest_route srv parse u server_url method params sent) =
        sent @ [\<lparr>url = server_url, http_method = ''POST'',
                 headers = [(''Content-Type'', ''application/json''),
                            (''Accept'', ''application/json,text/event-stream'')],
                 body = JObj [(''jsonrpc'', JStr ''2.0''), (''method'', JStr method),
                              (''id'', JNum (random_id u)), (''params'', params)]\<rparr>]"
    by (simp add: makeRequest_route_eq post_request_with_params[OF t] j)
qed

text \<open>
  The theorem at a call without params and at a call with the params of a tool call.
\<close>

theorem params_omitted_or_verbatim_witness:
  "snd (snd (makeRequest (mock (json_response ''{}'')) JSON_parse ''tools/list'' JUndefined
               (client0, []))) =
     [\<lparr>url = JStr ''https://mcp.example.test/mcp/token'', http_method = ''POST'',
       headers = [(''Content-Type'', ''application/json''),
                  (''Accept'', ''application/json,text/event-stream'')],
       body = JObj [(''jsonrpc'', JStr ''2.0''), (''method'', JStr ''tools/list''),
                    (''id'', JNum 1)]\<rparr>] \<and>
   snd (makeRequest_route (mock (json_response ''{}'')) JSON_parse (1 / 4)
          (JStr ''https://mcp.example.test/mcp/token'') ''tools/call''
          (JObj [(''name'', JStr ''list_connectors_alloy''), (''arguments'', JObj [])]) []) =
     [\<lparr>url = JStr ''https://mcp.example.test/mcp/token'', http_method = ''POST'',
       headers = [(''Content-Type'', ''application/json''),
                  (''Accept'', ''application/json,text/event-stream'')],
       body = JObj [(''jsonrpc'', JStr ''2.0''), (''method'', JStr ''tools/call''),
                    (''id'', JNum 250000),
                    (''params'', JObj [(''name'', JStr ''list_connectors_alloy''),
                                       (''arguments'', JObj [])])]\<rparr>]"
proof -
  have r: "random_id (1 / 4) = 250000" by (rule random_id_quarter)
  show ?thesis
    using
      params_omitted_or_verbatim[of JUndefined "mock (json_response ''{}'')" JSON_parse
        "''tools/list''" client0 "[]" "1 / 4" "JStr ''https://mcp.example.test/mcp/token''"]
      params_omitted_or_verbatim[of
        "JObj [(''name'', JStr ''list_connectors_alloy''), (''arguments'', JObj [])]"
        "mock (json_response ''{}'')" JSON_parse "''tools/call''" client0 "[]" "1 / 4"
        "JStr ''https://mcp.example.test/mcp/token''"]
    by (simp add: r client0_def)
qed

text \<open>
  Claim C10. A falsy \<open>params\<close> (\<open>null\<close>, \<open>false\<close>, \<open>0\<close>, the empty string, as well as
  \<open>undefined\<close>) is treated as an absent one: the body sent has the three members
  \<^verbatim>\<open>jsonrpc\<close>, \<^verbatim>\<open>method\<close> and \<^verbatim>\<open>id\<close> and no \<^verbatim>\<open>params\<close> member, and the whole call, its
  outcome and its effect on the state, is the call without params.
\<close>

theorem falsy_params_omitted:
  assumes "params \<in> {JUndefined, JNull, JBool False, JNum 0, JStr []}"
  shows "snd (snd (makeRequest srv parse method params (c, sent))) =
           sent @ [\<lparr>url = JStr (serverUrl c), http_method = ''POST'',
                    headers = [(''Content-Type'', ''application/json''),
                               (''Accept'', ''application/json,text/event-stream'')],
                    body = JObj [(''jsonrpc'', JStr ''2.0''), (''method'', JStr method),
                                 (''id'', JNum (requestId c))]\<rparr>] \<and>
         snd (makeRequest_route srv parse u server_url method params sent) =
           sent @ [\<lparr>url = server_url, http_method = ''POST'',
                    headers = [(''Content-Type'', ''application/json''),
                               (''Accept'', ''application/json,text/event-stream'')],
                    body = JObj [(''jsonrpc'', JStr ''2.0''), (''method'', JStr method),
                                 (''id'', JNum (random_id u))]\<rparr>] \<and>
         makeRequest srv parse method params (c, sent) =
           makeRequest srv parse method JUndefined (c, sent) \<and>
         makeRequest_route srv parse u server_url method params sent =
           makeRequest_route srv parse u server_url method JUndefined sent"
proof -
  from assms have f: "\<not> truthy params" by auto
  have g: "\<not> truthy JUndefined" by simp
  show ?thesis
    by (simp add: makeRequest_eq makeRequest_route_eq post_request_without_params[OF f]
        post_request_without_params[OF g])
qed

text \<open>The theorem at \<open>null\<close> in the class and at \<open>0\<close> in the route.\<close>

theorem falsy_params_omitted_witness:
  "snd (snd (makeRequest (mock (json_response ''{}'')) JSON_parse ''tools/list'' JNull
               (client0, []))) =
     [\<lparr>url = JStr ''https://mcp.example.test/mcp/token'', http_method = ''POST'',
       headers = [(''Content-Type'', ''application/json''),
                  (''Accept'', ''application/json,text/event-stream'')],
       body = JObj [(''jsonrpc'', JStr ''2.0''), (''method'', JStr ''tools/list''),
                    (''id'', JNum 1)]\<rparr>] \<and>
   snd (makeRequest_route (mock (json_response ''{}'')) JSON_parse (1 / 4)
          (JStr ''https://mcp.example.test/mcp/token'') ''tools/list'' (JNum 0) []) =
     [\<lparr>url = JStr ''https://mcp.example.test/mcp/token'', http_method = ''POST'',
       headers = [(''Content-Type'', ''application/json''),
                  (''Accept'', ''application/json,text/event-stream'')],
       body = JObj [(''jsonrpc'', JStr ''2.0''), (''method'', JStr ''tools/list''),
                    (''id'', JNum 250000)]\<rparr>]"
proof -
  have r: "random_id (1 / 4) = 250000" by (rule random_id_quarter)
  have a: "JNull \<in> {JUndefined, JNull, JBool False, JNum 0, JStr []}"
    and b: "JNum 0 \<in> {JUndefined, JNull, JBool False, JNum 0, JStr []}" by simp_all
  show ?thesis
    using
      falsy_params_omitted[OF a, of "mock (json_response ''{}'')" JSON_parse "''tools/list''"
        client0 "[]" "1 / 4" "JStr ''https://mcp.example.test/mcp/token''", THEN conjunct1]
      falsy_params_omitted[OF b, of "mock (json_response ''{}'')" JSON_parse "''tools/list''"
        client0 "[]" "1 / 4" "JStr ''https://mcp.example.test/mcp/token''",
        THEN conjunct2, THEN conjunct1]
    by (simp add: r client0_def)
qed

section \<open>The operations\<close>

lemma getprop_defined: "getprop v k = Inr x \<Longrightarrow> getprop v k' = Inr (getprop_opt v k')"
  by (cases v) (auto split: option.splits)

lemma throw_if_error_ok:
  "getprop envelope ''error'' = Inr err \<Longrightarrow> \<not> truthy err \<Longrightarrow>
   throw_if_error prefix envelope = Inr ()"
  by (simp add: throw_if_error_def)

lemma throw_if_error_message:
  "getprop envelope ''error'' = Inr err \<Longrightarrow> truthy err \<Longrightarrow>
   getprop err ''message'' = Inr (JStr m) \<Longrightarrow>
   throw_if_error prefix envelope = Inl (Error (prefix @ '': '' @ m))"
  by (simp add: throw_if_error_def)

lemma listAvailableTools_mock:
  "fst (listAvailableTools (mock response) parse st) =
     sbind (handle_response parse response) (\<lambda>envelope.
       sbind (throw_if_error ''Failed to list tools'' envelope) (\<lambda>_.
         sbind (forEach_log (tools_of envelope)) (\<lambda>_. Inr (tools_of envelope))))"
  using makeRequest_mock[of response parse "''tools/list''" JUndefined st]
  by (simp add: listAvailableTools_def split_beta Let_def)

lemma executeTool_mock:
  "fst (executeTool (mock response) parse toolName args st) =
     sbind (handle_response parse response) (\<lambda>envelope.
       sbind (throw_if_error ''Tool execution failed'' envelope) (\<lambda>_.
         getprop envelope ''result''))"
  using makeRequest_mock[of response parse "''tools/call''"
      "JObj [(''name'', JStr toolName), (''arguments'', args)]" st]
  by (simp add: executeTool_def split_beta)

lemma executeTool_sent:
  "snd (snd (executeTool srv parse toolName args (c, sent))) =
     sent @ [post_request (JStr (serverUrl c))
               (build_request (requestId c) ''tools/call''
                  (JObj [(''name'', JStr toolName), (''arguments'', args)]))]"
  by (simp add: executeTool_def split_beta makeRequest_eq)

lemma POST_execute_mock:
  assumes "truthy server_url" "truthy tool"
  shows "POST_execute (mock response) parse u
           (Inr (JObj [(''serverUrl'', server_url), (''toolName'', tool), (''arguments'', targs)]))
           sent =
         ((case sbind (handle_response parse response) (\<lambda>envelope.
                  sbind (throw_if_error ''Tool execution failed'' envelope) (\<lambda>_.
                    Inr (NextResponse_json
                           (JSON_stringify (JObj [(''content'', content_of envelope)])) 200))) of
             Inl e \<Rightarrow> NextResponse_failure ''Failed to execute tool'' e
           | Inr a \<Rightarrow> a),
          sent @ [post_request server_url
                    (build_request (random_id u) ''tools/call''
                       (JObj [(''name'', tool), (''arguments'', js_or targs (JObj []))]))])"
  using assms
  by (simp add: POST_execute_def Let_def split_beta makeRequest_route_eq mock_def)

subsection \<open>Protocol errors\<close>

text \<open>
  Claim C4, as stated: an envelope with an \<^verbatim>\<open>error\<close> member makes the operation fail
  with an error that carries the remote code and the remote message. The error the code
  throws is built from the message alone. Two envelopes that differ only in the code,
  -32601 and -32000, give the same failure, so no code can be read off it.
\<close>

theorem remote_error_code_is_not_carried:
  "fst (executeTool
          (mock (json_response
             ''{\"jsonrpc\":\"2.0\",\"id\":1,\"error\":{\"code\":-32601,\"message\":\"Method not found\"}}''))
          JSON_parse ''list_connectors_alloy'' (JObj []) (client0, [])) =
     Inl (Error ''Tool execution failed: Method not found'') \<and>
   fst (executeTool
          (mock (json_response
             ''{\"jsonrpc\":\"2.0\",\"id\":1,\"error\":{\"code\":-32000,\"message\":\"Method not found\"}}''))
          JSON_parse ''list_connectors_alloy'' (JObj []) (client0, [])) =
     Inl (Error ''Tool execution failed: Method not found'')"
  by code_simp

text \<open>
  Claim C4, amended. When the exchange returns an envelope whose \<^verbatim>\<open>error\<close> member is
  truthy and has the message string \<open>m\<close>, the operation fails with the error whose message
  is the operation's prefix, a colon and a space, and \<open>m\<close> unchanged (not with a parse
  error). The execute route answers with status 500 and that error in its text. The
  remote code is not part of the failure.
\<close>

theorem remote_error_surfaces_message_only:
  assumes "handle_response parse response = Inr envelope"
    and "getprop envelope ''error'' = Inr err" "truthy err"
    and "getprop err ''message'' = Inr (JStr m)"
  shows "fst (executeTool (mock response) parse toolName args st) =
           Inl (Error (''Tool execution failed: '' @ m)) \<and>
         fst (listAvailableTools (mock response) parse st) =
           Inl (Error (''Failed to list tools: '' @ m)) \<and>
         (truthy server_url \<and> truthy tool \<longrightarrow>
          fst (POST_execute (mock response) parse u
                 (Inr (JObj [(''serverUrl'', server_url), (''toolName'', tool),
                             (''arguments'', targs)])) sent) =
            NextResponse_failure ''Failed to execute tool''
              (Error (''Tool execution failed: '' @ m)))"
  using assms
  by (simp add: executeTool_mock listAvailableTools_mock POST_execute_mock
      throw_if_error_message)

text \<open>The theorem at the envelope of the specification's example.\<close>

theorem remote_error_surfaces_message_only_witness:
  "fst (executeTool
          (mock (json_response
             ''{\"jsonrpc\":\"2.0\",\"id\":1,\"error\":{\"code\":-32601,\"message\":\"Method not found\"}}''))
          JSON_parse ''list_connectors_alloy'' (JObj []) (client0, [])) =
     Inl (Error ''Tool execution failed: Method not found'') \<and>
   fst (listAvailableTools
          (mock (json_response
             ''{\"jsonrpc\":\"2.0\",\"id\":1,\"error\":{\"code\":-32601,\"message\":\"Method not found\"}}''))
          JSON_parse (client0, [])) =
     Inl (Error ''Failed to list tools: Method not found'') \<and>
   fst (POST_execute
          (mock (json_response
             ''{\"jsonrpc\":\"2.0\",\"id\":1,\"error\":{\"code\":-32601,\"message\":\"Method not found\"}}''))
          JSON_parse (1 / 4)
          (Inr (JObj [(''serverUrl'', JStr ''https://mcp.example.test/mcp/token''),
                      (''toolName'', JStr ''list_connectors_alloy''),
                      (''arguments'', JUndefined)])) []) =
     NextResponse_failure ''Failed to execute tool''
       (Error ''Tool execution failed: Method not found'')"
proof -
  let ?E = "''{\"jsonrpc\":\"2.0\",\"id\":1,\"error\":{\"code\":-32601,\"message\":\"Method not found\"}}''"
  let ?err = "JObj [(''code'', JNum (- 32601)), (''message'', JStr ''Method not found'')]"
  let ?env = "JObj [(''jsonrpc'', JStr ''2.0''), (''id'', JNum 1), (''error'', ?err)]"
  have p: "JSON_parse ?E = Inr ?env" by code_simp
  have 1: "handle_response JSON_parse (json_response ?E) = Inr ?env"
    using handle_response_json[of "json_response ?E" ?E JSON_parse] p
    by (simp add: ok_def json_response_def is_event_stream_def)
  have 2: "getprop ?env ''error'' = Inr ?err" "truthy ?err"
    "getprop ?err ''message'' = Inr (JStr ''Method not found'')"
    by simp_all
  show ?thesis
    using remote_error_surfaces_message_only[OF 1 2, of "''list_connectors_alloy''" "JObj []"
        "(client0, [])" "JStr ''https://mcp.example.test/mcp/token''"
        "JStr ''list_connectors_alloy''" "1 / 4" JUndefined "[]"]
    by simp
qed

subsection \<open>Executing a tool\<close>

lemma content_of_default:
  "content_of envelope =
     (if truthy (getprop_opt (getprop_opt envelope ''result'') ''content'')
      then getprop_opt (getprop_opt envelope ''result'') ''content''
      else JArr [])"
  by (simp add: content_of_def js_or_def)

text \<open>
  Claim C6, as stated: against the response \<^verbatim>\<open>{"result":{"content":[c]}}\<close> the value
  \<^verbatim>\<open>executeTool\<close> returns is the sequence \<^verbatim>\<open>[c]\<close> and not the whole result. The method of
  the class returns \<^verbatim>\<open>response.result\<close>: the object whose \<^verbatim>\<open>content\<close> is \<^verbatim>\<open>[c]\<close>.
\<close>

theorem executeTool_does_not_unwrap_content:
  "fst (executeTool
          (mock (json_response
             ''{\"result\":{\"content\":[{\"type\":\"text\",\"text\":\"...\"}]}}''))
          JSON_parse ''list_connectors_alloy'' (JObj []) (client0, [])) =
     Inr (JObj [(''content'', JArr [JObj [(''type'', JStr ''text''), (''text'', JStr ''...'')]])]) \<and>
   fst (executeTool
          (mock (json_response
             ''{\"result\":{\"content\":[{\"type\":\"text\",\"text\":\"...\"}]}}''))
          JSON_parse ''list_connectors_alloy'' (JObj []) (client0, [])) \<noteq>
     Inr (JArr [JObj [(''type'', JStr ''text''), (''text'', JStr ''...'')]])"
  by code_simp

text \<open>
  Claim C6, amended. When the exchange returns an envelope without a truthy \<^verbatim>\<open>error\<close>:
  \<^verbatim>\<open>executeTool\<close> of the class returns the \<^verbatim>\<open>result\<close> of the envelope, whole and unchanged
  (\<open>undefined\<close> when there is none), having sent one \<^verbatim>\<open>tools/call\<close> request whose params
  are the object of \<^verbatim>\<open>name\<close> and \<^verbatim>\<open>arguments\<close>; the execute route answers with status
  200 and the object whose only member \<^verbatim>\<open>content\<close> is \<^verbatim>\<open>result?.content || []\<close>, the
  content when it is truthy and the empty sequence otherwise, having sent params with the
  name and with \<^verbatim>\<open>toolArgs || {}\<close> as arguments.
\<close>

theorem executeTool_returns_whole_result:
  assumes "handle_response parse response = Inr envelope"
    and "getprop envelope ''error'' = Inr err" "\<not> truthy err"
  shows "fst (executeTool (mock response) parse toolName args (c, sent)) =
           Inr (getprop_opt envelope ''result'') \<and>
         (is_json args \<longrightarrow>
          snd (snd (executeTool (mock response) parse toolName args (c, sent))) =
            sent @ [\<lparr>url = JStr (serverUrl c), http_method = ''POST'',
                     headers = [(''Content-Type'', ''application/json''),
                                (''Accept'', ''application/json,text/event-stream'')],
                     body = JObj [(''jsonrpc'', JStr ''2.0''), (''method'', JStr ''tools/call''),
                                  (''id'', JNum (requestId c)),
                                  (''params'', JObj [(''name'', JStr toolName),
                                                     (''arguments'', args)])]\<rparr>]) \<and>
         (truthy server_url \<and> truthy tool \<and> is_json (content_of envelope) \<longrightarrow>
          fst (POST_execute (mock response) parse u
                 (Inr (JObj [(''serverUrl'', server_url), (''toolName'', tool),
                             (''arguments'', targs)])) sent) =
            NextResponse_json (JObj [(''content'', content_of envelope)]) 200) \<and>
         (truthy server_url \<and> truthy tool \<and> is_json tool \<and> is_json (js_or targs (JObj [])) \<longrightarrow>
          snd (POST_execute (mock response) parse u
                 (Inr (JObj [(''serverUrl'', server_url), (''toolName'', tool),
                             (''arguments'', targs)])) sent) =
            sent @ [\<lparr>url = server_url, http_method = ''POST'',
                     headers = [(''Content-Type'', ''application/json''),
                                (''Accept'', ''application/json,text/event-stream'')],
                     body = JObj [(''jsonrpc'', JStr ''2.0''), (''method'', JStr ''tools/call''),
                                  (''id'', JNum (random_id u)),
                                  (''params'', JObj [(''name'', tool),
                                                     (''arguments'', js_or targs (JObj []))])]\<rparr>]) \<and>
         content_of envelope =
           (if truthy (getprop_opt (getprop_opt envelope ''result'') ''content'')
            then getprop_opt (getprop_opt envelope ''result'') ''content''
            else JArr [])"
proof (intro conjI impI)
  have t: "\<And>p. throw_if_error p envelope = Inr ()"
    using assms(2,3) by (rule throw_if_error_ok)
  show "fst (executeTool (mock response) parse toolName args (c, sent)) =
           Inr (getprop_opt envelope ''result'')"
    using getprop_defined[OF assms(2), of "''result''"]
    by (simp add: executeTool_mock assms(1) t)
  {
    assume j: "is_json args"
    have s: "is_structured (JObj [(''name'', JStr toolName), (''arguments'', args)])" by simp
    have "JSON_stringify (JObj [(''name'', JStr toolName), (''arguments'', args)]) =
          JObj [(''name'', JStr toolName), (''arguments'', args)]"
      using j by (intro JSON_stringify_is_json) simp
    then show "snd (snd (executeTool (mock response) parse toolName args (c, sent))) =
            sent @ [\<lparr>url = JStr (serverUrl c), http_method = ''POST'',
                     headers = [(''Content-Type'', ''application/json''),
                                (''Accept'', ''application/json,text/event-stream'')],
                     body = JObj [(''jsonrpc'', JStr ''2.0''), (''method'', JStr ''tools/call''),
                                  (''id'', JNum (requestId c)),
                                  (''params'', JObj [(''name'', JStr toolName),
                                                     (''arguments'', args)])]\<rparr>]"
      by (simp only: executeTool_sent post_request_with_params[OF structured_truthy[OF s]])
  }
  {
    assume a: "truthy server_url \<and> truthy tool \<and> is_json (content_of envelope)"
    then have "JSON_stringify (JObj [(''content'', content_of envelope)]) =
               JObj [(''content'', content_of envelope)]"
      by (intro JSON_stringify_is_json) simp
    with a show "fst (POST_execute (mock response) parse u
                 (Inr (JObj [(''serverUrl'', server_url), (''toolName'', tool),
                             (''arguments'', targs)])) sent) =
            NextResponse_json (JObj [(''content'', content_of envelope)]) 200"
      by (simp add: POST_execute_mock assms(1) t)
  }
  {
    assume a: "truthy server_url \<and> truthy tool \<and> is_json tool \<and> is_json (js_or targs (JObj []))"
    have s: "is_structured (JObj [(''name'', tool), (''arguments'', js_or targs (JObj []))])"
      by simp
    have j: "JSON_stringify (JObj [(''name'', tool), (''arguments'', js_or targs (JObj []))]) =
          JObj [(''name'', tool), (''arguments'', js_or targs (JObj []))]"
      using a by (intro JSON_stringify_is_json) simp
    from a have "snd (POST_execute (mock response) parse u
                 (Inr (JObj [(''serverUrl'', server_url), (''toolName'', tool),
                             (''arguments'', targs)])) sent) =
          sent @ [post_request server_url
                    (build_request (random_id u) ''tools/call''
                       (JObj [(''name'', tool), (''arguments'', js_or targs (JObj []))]))]"
      by (simp add: POST_execute_mock)
    then show "snd (POST_execute (mock response) parse u
                 (Inr (JObj [(''serverUrl'', server_url), (''toolName'', tool),
                             (''arguments'', targs)])) sent) =
            sent @ [\<lparr>url = server_url, http_method = ''POST'',
                     headers = [(''Content-Type'', ''application/json''),
                                (''Accept'', ''application/json,text/event-stream'')],
                     body = JObj [(''jsonrpc'', JStr ''2.0''), (''method'', JStr ''tools/call''),
                                  (''id'', JNum (random_id u)),
                                  (''params'', JObj [(''name'', tool),
                                                     (''arguments'', js_or targs (JObj []))])]\<rparr>]"
      by (simp only: post_request_with_params[OF structured_truthy[OF s]] j)
  }
  show "content_of envelope =
           (if truthy (getprop_opt (getprop_opt envelope ''result'') ''content'')
            then getprop_opt (getprop_opt envelope ''result'') ''content''
            else JArr [])"
    by (rule content_of_default)
qed

text \<open>
  The theorem at the response of the specification's example, for the class and for the
  route (whose request body has no \<^verbatim>\<open>arguments\<close>).
\<close>

theorem executeTool_returns_whole_result_witness:
  "fst (executeTool
          (mock (json_response
             ''{\"result\":{\"content\":[{\"type\":\"text\",\"text\":\"...\"}]}}''))
          JSON_parse ''list_connectors_alloy'' (JObj []) (client0, [])) =
     Inr (JObj [(''content'', JArr [JObj [(''type'', JStr ''text''), (''text'', JStr ''...'')]])]) \<and>
   snd (snd (executeTool
          (mock (json_response
             ''{\"result\":{\"content\":[{\"type\":\"text\",\"text\":\"...\"}]}}''))
          JSON_parse ''list_connectors_alloy'' (JObj []) (client0, []))) =
     [\<lparr>url = JStr ''https://mcp.example.test/mcp/token'', http_method = ''POST'',
       headers = [(''Content-Type'', ''application/json''),
                  (''Accept'', ''application/json,text/event-stream'')],
       body = JObj [(''jsonrpc'', JStr ''2.0''), (''method'', JStr ''tools/call''),
                    (''id'', JNum 1),
                    (''params'', JObj [(''name'', JStr ''list_connectors_alloy''),
                                       (''arguments'', JObj [])])]\<rparr>] \<and>
   fst (POST_execute
          (mock (json_response
             ''{\"result\":{\"content\":[{\"type\":\"text\",\"text\":\"...\"}]}}''))
          JSON_parse (1 / 4)
          (Inr (JObj [(''serverUrl'', JStr ''https://mcp.example.test/mcp/token''),
                      (''toolName'', JStr ''list_connectors_alloy''),
                      (''arguments'', JUndefined)])) []) =
     NextResponse_json
       (JObj [(''content'', JArr [JObj [(''type'', JStr ''text''), (''text'', JStr ''...'')]])])
       200 \<and>
   snd (POST_execute
          (mock (json_response
             ''{\"result\":{\"content\":[{\"type\":\"text\",\"text\":\"...\"}]}}''))
          JSON_parse (1 / 4)
          (Inr (JObj [(''serverUrl'', JStr ''https://mcp.example.test/mcp/token''),
                      (''toolName'', JStr ''list_connectors_alloy''),
                      (''arguments'', JUndefined)])) []) =
     [\<lparr>url = JStr ''https://mcp.example.test/mcp/token'', http_method = ''POST'',
       headers = [(''Content-Type'', ''application/json''),
                  (''Accept'', ''application/json,text/event-stream'')],
       body = JObj [(''jsonrpc'', JStr ''2.0''), (''method'', JStr ''tools/call''),
                    (''id'', JNum 250000),
                    (''params'', JObj [(''name'', JStr ''list_connectors_alloy''),
                                       (''arguments'', JObj [])])]\<rparr>]"
proof -
  let ?E = "''{\"result\":{\"content\":[{\"type\":\"text\",\"text\":\"...\"}]}}''"
  let ?content = "JArr [JObj [(''type'', JStr ''text''), (''text'', JStr ''...'')]]"
  let ?env = "JObj [(''result'', JObj [(''content'', ?content)])]"
  have p: "JSON_parse ?E = Inr ?env" by code_simp
  have 1: "handle_response JSON_parse (json_response ?E) = Inr ?env"
    using handle_response_json[of "json_response ?E" ?E JSON_parse] p
    by (simp add: ok_def json_response_def is_event_stream_def)
  have 2: "getprop ?env ''error'' = Inr JUndefined" "\<not> truthy JUndefined"
    by simp_all
  have r: "random_id (1 / 4) = 250000" by (rule random_id_quarter)
  have c: "content_of ?env = ?content" by (simp add: content_of_def js_or_def)
  show ?thesis
    using executeTool_returns_whole_result[OF 1 2, of "''list_connectors_alloy''" "JObj []"
        client0 "[]" "JStr ''https://mcp.example.test/mcp/token''"
        "JStr ''list_connectors_alloy''" "1 / 4" JUndefined]
    by (simp add: r c client0_def js_or_def)
qed

subsection \<open>Listing the tools\<close>

lemma log_tool_descriptor: "tool_descriptor t \<Longrightarrow> log_tool t = Inr ()"
  by (cases t)
     (auto simp: tool_descriptor_def string_or_absent_def log_tool_def
           split: option.splits jsval.splits)

lemma sequence_sum_all_ok:
  "list_all (\<lambda>x. f x = Inr ()) xs \<Longrightarrow> \<exists>us. sequence_sum (map f xs) = Inr us"
  by (induction xs) auto

lemma forEach_log_descriptors:
  assumes "list_all tool_descriptor xs"
  shows "forEach_log (JArr xs) = Inr ()"
proof -
  from assms have "list_all (\<lambda>x. log_tool x = Inr ()) xs"
    by (simp add: list_all_iff log_tool_descriptor)
  then obtain us where "sequence_sum (map log_tool xs) = Inr us"
    using sequence_sum_all_ok by blast
  then show ?thesis by (simp add: forEach_log_def)
qed

lemma forEach_log_empty: "forEach_log (JArr []) = Inr ()"
  by (simp add: forEach_log_def)

text \<open>
  Claim C8. When the \<^verbatim>\<open>tools/list\<close> exchange returns an envelope without a truthy
  \<^verbatim>\<open>error\<close>: a \<^verbatim>\<open>tools\<close> member of the result that is a sequence of tool descriptors
  (the empty sequence included) is returned unchanged; when the envelope has no
  \<^verbatim>\<open>result\<close>, or the result has no \<^verbatim>\<open>tools\<close>, the empty sequence is returned, so a
  missing member does not make the operation fail.
\<close>

theorem listTools_returns_tools_or_empty:
  assumes "handle_response parse response = Inr envelope"
    and "getprop envelope ''error'' = Inr err" "\<not> truthy err"
  shows "(getprop_opt (getprop_opt envelope ''result'') ''tools'' = JArr xs \<and>
          list_all tool_descriptor xs \<longrightarrow>
          fst (listAvailableTools (mock response) parse st) = Inr (JArr xs)) \<and>
         (getprop_opt envelope ''result'' = JUndefined \<longrightarrow>
          fst (listAvailableTools (mock response) parse st) = Inr (JArr [])) \<and>
         (getprop_opt (getprop_opt envelope ''result'') ''tools'' = JUndefined \<longrightarrow>
          fst (listAvailableTools (mock response) parse st) = Inr (JArr []))"
proof (intro conjI impI)
  have t: "\<And>p. throw_if_error p envelope = Inr ()"
    using assms(2,3) by (rule throw_if_error_ok)
  have l: "fst (listAvailableTools (mock response) parse st) =
           sbind (forEach_log (tools_of envelope)) (\<lambda>_. Inr (tools_of envelope))"
    by (simp add: listAvailableTools_mock assms(1) t)
  {
    assume a: "getprop_opt (getprop_opt envelope ''result'') ''tools'' = JArr xs \<and>
               list_all tool_descriptor xs"
    then have "tools_of envelope = JArr xs" by (simp add: tools_of_def js_or_def)
    with a show "fst (listAvailableTools (mock response) parse st) = Inr (JArr xs)"
      by (simp add: l forEach_log_descriptors)
  }
  {
    assume "getprop_opt envelope ''result'' = JUndefined"
    then have "tools_of envelope = JArr []" by (simp add: tools_of_def js_or_def)
    then show "fst (listAvailableTools (mock response) parse st) = Inr (JArr [])"
      by (simp add: l forEach_log_empty)
  }
  {
    assume "getprop_opt (getprop_opt envelope ''result'') ''tools'' = JUndefined"
    then have "tools_of envelope = JArr []" by (simp add: tools_of_def js_or_def)
    then show "fst (listAvailableTools (mock response) parse st) = Inr (JArr [])"
      by (simp add: l forEach_log_empty)
  }
qed

text \<open>
  The theorem at a result with one tool, at a result without \<^verbatim>\<open>tools\<close> and at an envelope
  without \<^verbatim>\<open>result\<close>.
\<close>

theorem listTools_returns_tools_or_empty_witness:
  "fst (listAvailableTools
          (mock (json_response
             ''{\"jsonrpc\":\"2.0\",\"id\":1,\"result\":{\"tools\":[{\"name\":\"list_connectors_alloy\",\"description\":\"List connectors\"}]}}''))
          JSON_parse (client0, [])) =
     Inr (JArr [JObj [(''name'', JStr ''list_connectors_alloy''),
                      (''description'', JStr ''List connectors'')]]) \<and>
   fst (listAvailableTools (mock (json_response ''{\"jsonrpc\":\"2.0\",\"id\":1,\"result\":{}}''))
          JSON_parse (client0, [])) = Inr (JArr []) \<and>
   fst (listAvailableTools (mock (json_response ''{\"jsonrpc\":\"2.0\",\"id\":1}''))
          JSON_parse (client0, [])) = Inr (JArr [])"
proof -
  let ?E1 = "''{\"jsonrpc\":\"2.0\",\"id\":1,\"result\":{\"tools\":[{\"name\":\"list_connectors_alloy\",\"description\":\"List connectors\"}]}}''"
  let ?tools = "[JObj [(''name'', JStr ''list_connectors_alloy''),
                       (''description'', JStr ''List connectors'')]]"
  let ?env1 = "JObj [(''jsonrpc'', JStr ''2.0''), (''id'', JNum 1),
                     (''result'', JObj [(''tools'', JArr ?tools)])]"
  let ?E2 = "''{\"jsonrpc\":\"2.0\",\"id\":1,\"result\":{}}''"
  let ?env2 = "JObj [(''jsonrpc'', JStr ''2.0''), (''id'', JNum 1), (''result'', JObj [])]"
  let ?E3 = "''{\"jsonrpc\":\"2.0\",\"id\":1}''"
  let ?env3 = "JObj [(''jsonrpc'', JStr ''2.0''), (''id'', JNum 1)]"
  have p: "JSON_parse ?E1 = Inr ?env1" "JSON_parse ?E2 = Inr ?env2" "JSON_parse ?E3 = Inr ?env3"
    by code_simp+
  have h1: "handle_response JSON_parse (json_response ?E1) = Inr ?env1"
    using handle_response_json[of "json_response ?E1" ?E1 JSON_parse] p(1)
    by (simp add: ok_def json_response_def is_event_stream_def)
  have h2: "handle_response JSON_parse (json_response ?E2) = Inr ?env2"
    using handle_response_json[of "json_response ?E2" ?E2 JSON_parse] p(2)
    by (simp add: ok_def json_response_def is_event_stream_def)
  have h3: "handle_response JSON_parse (json_response ?E3) = Inr ?env3"
    using handle_response_json[of "json_response ?E3" ?E3 JSON_parse] p(3)
    by (simp add: ok_def json_response_def is_event_stream_def)
  have e: "getprop ?env1 ''error'' = Inr JUndefined" "getprop ?env2 ''error'' = Inr JUndefined"
    "getprop ?env3 ''error'' = Inr JUndefined" "\<not> truthy JUndefined"
    by simp_all
  have d: "list_all tool_descriptor ?tools"
    by (simp add: tool_descriptor_def string_or_absent_def)
  show ?thesis
    using listTools_returns_tools_or_empty[OF h1 e(1) e(4), of ?tools "(client0, [])", THEN conjunct1]
      listTools_returns_tools_or_empty[OF h2 e(2) e(4), of "[]" "(client0, [])",
        THEN conjunct2, THEN conjunct2]
      listTools_returns_tools_or_empty[OF h3 e(3) e(4), of "[]" "(client0, [])",
        THEN conjunct2, THEN conjunct1]
      d
    by simp
qed

section \<open>Request ids\<close>

lemma request_id_post [simp]: "request_id (post_request url_v (build_request i method params)) = JNum i"
  by (cases "truthy params")
     (simp_all add: request_id_def post_request_with_params post_request_without_params)

lemma run_requests_ids:
  "requestId c + int (length calls) \<le> 2 ^ 53 \<Longrightarrow>
   map request_id (snd (run_requests srv parse calls (c, sent))) =
     map request_id sent @ map JNum [requestId c .. requestId c + int (length calls) - 1]"
proof (induction calls arbitrary: c sent)
  case Nil
  then show ?case by simp
next
  case (Cons call calls)
  obtain m p where call: "call = (m, p)" by (cases call)
  from Cons.prems have below: "requestId c < 2 ^ 53" by simp
  then have succ: "js_succ (requestId c) = requestId c + 1" by (simp add: js_succ_def)
  let ?c' = "c\<lparr>requestId := requestId c + 1\<rparr>"
  let ?rq = "post_request (JStr (serverUrl c)) (build_request (requestId c) m p)"
  have step: "snd (makeRequest srv parse m p (c, sent)) = (?c', sent @ [?rq])"
    by (simp add: makeRequest_eq succ)
  have bound: "requestId ?c' + int (length calls) \<le> 2 ^ 53" using Cons.prems by simp
  have "map request_id (snd (run_requests srv parse (call # calls) (c, sent))) =
        map request_id (snd (run_requests srv parse calls (?c', sent @ [?rq])))"
    by (simp add: call step)
  also have "\<dots> = map request_id (sent @ [?rq]) @
                   map JNum [requestId ?c' .. requestId ?c' + int (length calls) - 1]"
    by (rule Cons.IH[OF bound])
  also have "\<dots> = map request_id sent @
                   map JNum (requestId c # [requestId c + 1 .. requestId c + int (length calls)])"
    by simp
  also have "requestId c # [requestId c + 1 .. requestId c + int (length calls)] =
             [requestId c .. requestId c + int (length (call # calls)) - 1]"
    using upto_rec1[of "requestId c" "requestId c + int (length calls)"] by simp
  finally show ?case .
qed

lemma run_requests_route_ids:
  "map request_id (run_requests_route srv parse server_url calls sent) =
     map request_id sent @ map (\<lambda>call. JNum (random_id (fst call))) calls"
proof (induction calls arbitrary: sent)
  case Nil
  then show ?case by simp
next
  case (Cons call calls)
  obtain u m p where call: "call = (u, m, p)" by (cases call)
  show ?case by (simp add: call Cons.IH makeRequest_route_eq)
qed

lemma bit_length_le: "n < 2 ^ k \<Longrightarrow> bit_length n \<le> k"
proof (induction k arbitrary: n)
  case 0
  then show ?case by (simp add: bit_length.simps)
next
  case (Suc k)
  show ?case
  proof (cases "n = 0")
    case True
    then show ?thesis by (simp add: bit_length.simps)
  next
    case False
    from Suc.prems have "n div 2 < 2 ^ k" by simp
    then have "bit_length (n div 2) \<le> k" by (rule Suc.IH)
    with False show ?thesis by (subst bit_length.simps) simp
  qed
qed

lemma binade_le:
  assumes "p < 2 ^ 20"
  shows "binade p \<le> 19"
proof (cases "1 \<le> p")
  case True
  from True have "0 \<le> \<lfloor>p\<rfloor>" by simp
  with assms have "nat \<lfloor>p\<rfloor> < 2 ^ 20" by (simp add: nat_less_iff floor_less_iff)
  then have "bit_length (nat \<lfloor>p\<rfloor>) \<le> 20" by (rule bit_length_le)
  with True show ?thesis by (simp add: binade_def)
next
  case False
  then show ?thesis by (simp add: binade_def)
qed

lemma round_half_even_le: "of_int (round_half_even q) \<le> q + 1 / 2"
proof -
  define f where "f = \<lfloor>q\<rfloor>"
  define d where "d = q - of_int f"
  have fq: "of_int f \<le> q" by (simp add: f_def)
  have r: "round_half_even q = f \<or> (\<not> d < 1 / 2 \<and> round_half_even q = f + 1)"
    by (simp add: round_half_even_def Let_def f_def d_def)
  then show ?thesis
  proof
    assume "round_half_even q = f"
    with fq show ?thesis by simp
  next
    assume a: "\<not> d < 1 / 2 \<and> round_half_even q = f + 1"
    then have "of_int f + 1 \<le> q + 1 / 2" by (simp add: d_def)
    with a show ?thesis by simp
  qed
qed

lemma round_half_even_nonneg: "0 \<le> q \<Longrightarrow> 0 \<le> round_half_even q"
  by (auto simp: round_half_even_def Let_def)

lemma two_powi_pos: "0 < two_powi e"
  by (simp add: two_powi_def)

lemma two_powi_small:
  assumes "e \<le> - 33"
  shows "two_powi e \<le> 1 / 2 ^ 33"
proof -
  from assms have "33 \<le> nat (- e)" by simp
  then have "(2::rat) ^ 33 \<le> 2 ^ nat (- e)" by (rule power_increasing) simp
  then have "1 / (2::rat) ^ nat (- e) \<le> 1 / 2 ^ 33" by (simp add: frac_le)
  with assms show ?thesis by (simp add: two_powi_def)
qed


lemma round_double_bounds:
  assumes "0 \<le> p" "p < 2 ^ 20"
  shows "0 \<le> round_double p \<and> round_double p \<le> p + 1 / 2 ^ 34"
proof (cases "p = 0")
  case True
  then show ?thesis by (simp add: round_double_def)
next
  case False
  with assms have pos: "0 < p" by simp
  define ulp where "ulp = two_powi (max (binade p) (- 1022) - 52)"
  have u0: "0 < ulp" unfolding ulp_def by (rule two_powi_pos)
  have "max (binade p) (- 1022) - 52 \<le> - 33" using binade_le[OF assms(2)] by simp
  then have u1: "ulp \<le> 1 / 2 ^ 33" unfolding ulp_def by (rule two_powi_small)
  have r: "round_double p = of_int (round_half_even (p / ulp)) * ulp"
    using pos by (simp add: round_double_def ulp_def Let_def)
  have "0 \<le> p / ulp" using pos u0 by simp
  then have n0: "0 \<le> round_half_even (p / ulp)" by (rule round_half_even_nonneg)
  have "of_int (round_half_even (p / ulp)) * ulp \<le> (p / ulp + 1 / 2) * ulp"
    using round_half_even_le[of "p / ulp"] u0 by (rule mult_right_mono[OF _ less_imp_le])
  also have "\<dots> = p + ulp / 2" using u0 by (simp add: distrib_right)
  also have "\<dots> \<le> p + 1 / 2 ^ 34" using u1 by simp
  finally have hi: "round_double p \<le> p + 1 / 2 ^ 34" unfolding r .
  have "0 \<le> of_int (round_half_even (p / ulp)) * ulp"
    using n0 u0 by (intro mult_nonneg_nonneg) simp_all
  then have "0 \<le> round_double p" unfolding r .
  with hi show ?thesis by simp
qed

lemma random_id_range:
  assumes "0 \<le> u" "u \<le> 1 - 1 / 2 ^ 53"
  shows "0 \<le> random_id u \<and> random_id u < 1000000"
proof -
  define p where "p = u * 1000000"
  have p0: "0 \<le> p" using assms(1) by (simp add: p_def)
  have "u * 1000000 \<le> (1 - 1 / 2 ^ 53) * 1000000"
    using assms(2) by (rule mult_right_mono) simp
  then have p1: "p \<le> 1000000 - 1000000 / 2 ^ 53" by (simp add: p_def)
  then have p2: "p < 2 ^ 20" by simp
  from round_double_bounds[OF p0 p2] have lo: "0 \<le> round_double p"
    and hi: "round_double p \<le> p + 1 / 2 ^ 34" by simp_all
  from hi p1 have "round_double p < 1000000" by simp
  with lo show ?thesis by (simp add: random_id_def p_def floor_less_iff)
qed

text \<open>
  Three values of the function: at 0.5; at the double \<open>0.25 + 1 / 2 ^ 30\<close>, where the product
  is a double and lies between 250000 and 250001; and at the double nearest to 0.29,
  where the exact product lies below 290000 and its rounding is 290000.
\<close>

lemma random_id_half: "random_id (1 / 2) = 500000"
  by (simp add: random_id_def round_double_def binade_def bit_length.simps two_powi_def
      round_half_even_def Let_def)

lemma floor_near_quarter: "\<lfloor>4194304015625 / 16777216 :: rat\<rfloor> = 250000"
  by (rule floor_unique) simp_all

lemma binade_near_quarter: "binade (4194304015625 / 16777216) = 17"
  by (simp add: binade_def floor_near_quarter bit_length_250000)

lemma round_double_near_quarter:
  "round_double (4194304015625 / 16777216) = 4194304015625 / 16777216"
proof -
  have t: "two_powi (- 35) = 1 / 34359738368" by (simp add: two_powi_def)
  have q: "(4194304015625 / 16777216 :: rat) / (1 / 34359738368) = 8589934624000000" by simp
  have r: "round_half_even 8589934624000000 = 8589934624000000"
    by (simp add: round_half_even_def Let_def)
  show ?thesis by (simp add: round_double_def binade_near_quarter t q r Let_def)
qed

lemma random_id_near_quarter: "random_id (268435457 / 1073741824) = 250000"
proof -
  have "(268435457 / 1073741824 :: rat) * 1000000 = 4194304015625 / 16777216" by simp
  then show ?thesis by (simp add: random_id_def round_double_near_quarter floor_near_quarter)
qed

lemma floor_product_029: "\<lfloor>81627743246090234375 / 281474976710656 :: rat\<rfloor> = 289999"
  by (rule floor_unique) simp_all

lemma round_double_product_029:
  "round_double (81627743246090234375 / 281474976710656) = 290000"
proof -
  have l: "bit_length 289999 = 19" by (simp add: bit_length.simps)
  have b: "binade (81627743246090234375 / 281474976710656) = 18"
    by (simp add: binade_def floor_product_029 l)
  have t: "two_powi (- 34) = 1 / 17179869184" by (simp add: two_powi_def)
  have q: "(81627743246090234375 / 281474976710656 :: rat) / (1 / 17179869184) =
           81627743246090234375 / 16384" by simp
  have f: "\<lfloor>81627743246090234375 / 16384 :: rat\<rfloor> = 4982162063359999"
    by (rule floor_unique) simp_all
  have r: "round_half_even (81627743246090234375 / 16384) = 4982162063360000"
    by (simp add: round_half_even_def Let_def f)
  show ?thesis by (simp add: round_double_def b t q r Let_def)
qed

lemma random_id_029: "random_id (5224175567749775 / 18014398509481984) = 290000"
proof -
  have "(5224175567749775 / 18014398509481984 :: rat) * 1000000 =
        81627743246090234375 / 281474976710656" by simp
  then show ?thesis by (simp add: random_id_def round_double_product_029)
qed

text \<open>
  Claim C9, as stated: the ids of the requests of one session are pairwise distinct, with
  the counter and with the random integers. The routes' function draws every id anew:
  two calls whose random numbers are the doubles 0.25 and \<open>0.25 + 1 / 2 ^ 30\<close> both send
  the id 250000.
\<close>

theorem random_ids_can_repeat:
  "map request_id
     (run_requests_route (mock (json_response ''{}'')) JSON_parse
        (JStr ''https://mcp.example.test/mcp/token'')
        [(1 / 4, ''initialize'', JObj [(''protocolVersion'', JStr ''2024-11-05'')]),
         (268435457 / 1073741824, ''tools/list'', JUndefined)]
        []) = [JNum 250000, JNum 250000]"
  unfolding run_requests_route_ids by (simp add: random_id_quarter random_id_near_quarter)

text \<open>
  Claim C9, amended. Through one client object of the command-line client, fresh from the
  constructor, the \<open>k\<close>-th request carries the id \<open>k\<close>, so the ids of all the requests sent
  are pairwise distinct, in sessions of fewer than \<open>2 ^ 53\<close> requests (where the counter
  stops). The id of a request of the routes is \<^verbatim>\<open>Math.floor(Math.random() * 1000000)\<close> of
  its own random number, whatever the ids sent before; for every random number from 0
  to \<open>1 - 1 / 2 ^ 53\<close>, the largest double below 1, it is an integer from 0 to 999999.
\<close>

theorem counter_ids_are_distinct:
  assumes "fst (constructor env sent0) = Inr c" and "length calls < 2 ^ 53"
  shows "map request_id (snd (run_requests srv parse calls (c, []))) =
           map JNum [1 .. int (length calls)] \<and>
         distinct (map request_id (snd (run_requests srv parse calls (c, [])))) \<and>
         map request_id (run_requests_route srv parse server_url rcalls []) =
           map (\<lambda>call. JNum (random_id (fst call))) rcalls \<and>
         (\<forall>call \<in> set rcalls. 0 \<le> fst call \<and> fst call \<le> 1 - 1 / 2 ^ 53 \<longrightarrow>
            0 \<le> random_id (fst call) \<and> random_id (fst call) < 1000000)"
proof -
  from assms(1) have one: "requestId c = 1"
    by (auto simp: constructor_def Let_def split: if_splits)
  from assms(2) have "int (length calls) < 2 ^ 53"
    by (metis of_nat_less_iff of_nat_numeral of_nat_power)
  then have "requestId c + int (length calls) \<le> 2 ^ 53" using one by simp
  from run_requests_ids[OF this, of srv parse "[]"] one
  have ids: "map request_id (snd (run_requests srv parse calls (c, []))) =
             map JNum [1 .. int (length calls)]" by simp
  have "distinct (map JNum [1 .. int (length calls)])"
    by (simp add: distinct_map inj_on_def)
  with ids show ?thesis
    using random_id_range by (simp add: run_requests_route_ids)
qed

text \<open>The theorem at a session of three calls and at two calls of the routes' function.\<close>

theorem counter_ids_are_distinct_witness:
  "map request_id
     (snd (run_requests (mock (json_response ''{}'')) JSON_parse
             [(''initialize'', JObj [(''protocolVersion'', JStr ''2024-11-05'')]),
              (''tools/list'', JUndefined),
              (''tools/call'', JObj [(''name'', JStr ''list_connectors_alloy''),
                                     (''arguments'', JObj [])])]
             (client0, []))) = [JNum 1, JNum 2, JNum 3] \<and>
   distinct (map request_id
     (snd (run_requests (mock (json_response ''{}'')) JSON_parse
             [(''initialize'', JObj [(''protocolVersion'', JStr ''2024-11-05'')]),
              (''tools/list'', JUndefined),
              (''tools/call'', JObj [(''name'', JStr ''list_connectors_alloy''),
                                     (''arguments'', JObj [])])]
             (client0, [])))) \<and>
   map request_id
     (run_requests_route (mock (json_response ''{}'')) JSON_parse
        (JStr ''https://mcp.example.test/mcp/token'')
        [(1 / 4, ''tools/list'', JUndefined), (1 / 2, ''tools/list'', JUndefined)] []) =
     [JNum 250000, JNum 500000]"
proof -
  have c: "fst (constructor (Some ''https://mcp.example.test/mcp/token'') []) = Inr client0"
    by (simp add: constructor_def client0_def)
  have n: "length [(''initialize'', JObj [(''protocolVersion'', JStr ''2024-11-05'')]),
              (''tools/list'', JUndefined),
              (''tools/call'', JObj [(''name'', JStr ''list_connectors_alloy''),
                                     (''arguments'', JObj [])])] < (2::nat) ^ 53"
    by simp
  have u: "[1 .. 3] = [1, 2, 3::int]" by (simp add: upto.simps)
  show ?thesis
    using counter_ids_are_distinct[OF c n, of "mock (json_response ''{}'')" JSON_parse
        "JStr ''https://mcp.example.test/mcp/token''"
        "[(1 / 4, ''tools/list'', JUndefined), (1 / 2, ''tools/list'', JUndefined)]"]
    by (simp add: u random_id_quarter random_id_half)
qed

end
